theory Spec2Isabelle
  imports Complex_Main "HOL-Library.Word"
begin

unbundle bit_operations_syntax

section \<open>A minimal GLB loader (GLTFLoader.js)\<close>

text \<open>
  The loader reads a binary glTF container: a 12-byte header, then chunks. It throws
  JavaScript exceptions and writes warnings to the console. An exception is the left
  summand of a result; the console is the list of messages written so far, oldest first.
\<close>

subsection \<open>Bytes, exceptions, the DataView\<close>

type_synonym byte = "8 word"
type_synonym bytes = "byte list"

datatype js_error =
    Error string
  | TypeError
  | RangeError
  | SyntaxError

text \<open>
  \<^verbatim>\<open>dv.getUint32(offset, true)\<close>: four bytes, least significant first; a
  RangeError when the four bytes do not lie within the buffer.
\<close>

fun le_nat :: "bytes \<Rightarrow> nat" where
  "le_nat [] = 0"
| "le_nat (b # bs) = unat b + 256 * le_nat bs"

definition getUint32 :: "bytes \<Rightarrow> nat \<Rightarrow> js_error + nat" where
  "getUint32 buf offset =
     (if offset + 4 \<le> length buf then Inr (le_nat (take 4 (drop offset buf)))
      else Inl RangeError)"

text \<open>
  \<^verbatim>\<open>arrayBuffer.slice(begin, end)\<close> with non-negative arguments: both ends are
  clamped to the buffer, and an empty buffer results when nothing is left.
\<close>

definition slice :: "bytes \<Rightarrow> nat \<Rightarrow> nat \<Rightarrow> bytes" where
  "slice buf start fin = take (fin - start) (drop start buf)"

text \<open>
  Reading an array at an index: \<^verbatim>\<open>xs[i]\<close> is \<^verbatim>\<open>undefined\<close> (here \<open>None\<close>) past
  the end, and \<^verbatim>\<open>xs[undefined]\<close> is \<^verbatim>\<open>undefined\<close> too.
\<close>

definition nth_opt :: "'a list \<Rightarrow> nat \<Rightarrow> 'a option" where
  "nth_opt xs i = (if i < length xs then Some (xs ! i) else None)"

definition index_opt :: "'a list \<Rightarrow> nat option \<Rightarrow> 'a option" where
  "index_opt xs io = (case io of None \<Rightarrow> None | Some i \<Rightarrow> nth_opt xs i)"

text \<open>
  \<^verbatim>\<open>xs.map(f)\<close> with a callback that may throw: the first exception leaves the
  loop. \<open>map_index\<close> is the same with the element's index as second argument.
\<close>

fun map_result :: "('a \<Rightarrow> js_error + 'b) \<Rightarrow> 'a list \<Rightarrow> js_error + 'b list" where
  "map_result f [] = Inr []"
| "map_result f (x # xs) =
     (case f x of
        Inl e \<Rightarrow> Inl e
      | Inr y \<Rightarrow> (case map_result f xs of Inl e \<Rightarrow> Inl e | Inr ys \<Rightarrow> Inr (y # ys)))"

definition map_index :: "('a \<Rightarrow> nat \<Rightarrow> js_error + 'b) \<Rightarrow> 'a list \<Rightarrow> js_error + 'b list" where
  "map_index f xs = map_result (\<lambda>(i, x). f x i) (enumerate 0 xs)"

subsection \<open>The document\<close>

text \<open>
  The metadata document is what \<^verbatim>\<open>JSON.parse\<close> returns. The model is the typed
  shape the loader reads. A property that is absent (or \<^verbatim>\<open>null\<close>) is \<open>None\<close>.
  A top-level array that is absent is the empty list: the loader reads each of them
  through \<^verbatim>\<open>json.xs||[]\<close>, a truthiness test, or an index that then finds nothing.
  Indices, byte counts and enumeration codes are naturals, as glTF has them. The
  material factors keep their JSON kind, since the loader coerces them with
  \<^verbatim>\<open>||\<close>, \<^verbatim>\<open>*\<close> and \<^verbatim>\<open><\<close>; strings, arrays and objects in a factor's
  place are outside the model. Numbers are the rationals they denote. An accessor's
  \<^verbatim>\<open>count\<close> is taken to be present, and \<^verbatim>\<open>normalized\<close> and \<^verbatim>\<open>doubleSided\<close> are
  the truth values the loader makes of them.
\<close>

datatype jsval = JNull | JBool bool | JNum rat

record buffer_def =
  buf_uri :: "string option"

record bufferView_def =
  v_buffer :: "nat option"
  v_byteOffset :: "nat option"
  v_byteLength :: "nat option"

record accessor_def =
  acc_bufferView :: "nat option"
  acc_byteOffset :: "nat option"
  acc_componentType :: "nat option"
  acc_type :: "string option"
  acc_count :: nat
  acc_normalized :: bool

record attributes_def =
  POSITION :: "nat option"
  NORMAL :: "nat option"
  COLOR_0 :: "nat option"

record primitive_def =
  p_mode :: "nat option"
  p_attributes :: "attributes_def option"
  p_indices :: "nat option"
  p_material :: "nat option"

record mesh_def =
  m_name :: "string option"
  m_primitives :: "primitive_def list"

record textureInfo_def =
  ti_index :: "nat option"

record pbr_def =
  baseColorFactor :: "jsval list option"
  baseColorTexture :: "textureInfo_def option"
  metallicFactor :: "jsval option"
  roughnessFactor :: "jsval option"

record material_def =
  pbrMetallicRoughness :: "pbr_def option"
  emissiveFactor :: "jsval list option"
  doubleSided :: bool
  alphaMode :: "string option"

record image_def =
  img_bufferView :: "nat option"
  img_uri :: "string option"
  img_mimeType :: "string option"

record sampler_def =
  s_wrapS :: "nat option"
  s_wrapT :: "nat option"
  s_magFilter :: "nat option"
  s_minFilter :: "nat option"

record texture_def =
  t_source :: "nat option"
  t_sampler :: "nat option"

record node_def =
  n_name :: "string option"
  n_mesh :: "nat option"
  n_translation :: "rat list option"
  n_scale :: "rat list option"
  n_rotation :: "rat list option"
  n_children :: "nat list option"

record scene_def =
  sc_nodes :: "nat list option"

record document =
  d_buffers :: "buffer_def list"
  d_bufferViews :: "bufferView_def list"
  d_accessors :: "accessor_def list"
  d_meshes :: "mesh_def list"
  d_materials :: "material_def list"
  d_images :: "image_def list"
  d_textures :: "texture_def list"
  d_samplers :: "sampler_def list"
  d_nodes :: "node_def list"
  d_scenes :: "scene_def list"
  d_scene :: "nat option"

definition empty_document :: document where
  "empty_document =
     \<lparr>d_buffers = [], d_bufferViews = [], d_accessors = [], d_meshes = [], d_materials = [],
      d_images = [], d_textures = [], d_samplers = [], d_nodes = [], d_scenes = [],
      d_scene = None\<rparr>"


text \<open>
  The context object \<^verbatim>\<open>ctx\<close> that the stages pass along (\<^verbatim>\<open>ctx.THREE\<close> is the
  rendering library, whose constructors are the output types below).
\<close>


subsection \<open>What the loader builds\<close>

text \<open>
  The objects of the rendering library are records of what the loader puts into them.
  An image is the URL the texture loader is given: an object URL made for a blob of
  bytes with a MIME type, or a URL string.
\<close>

datatype image_url = ObjectURL bytes string | Url string

record image =
  i_url :: image_url
  i_mimeType :: "string option"

datatype wrapping = ClampToEdgeWrapping | MirroredRepeatWrapping | RepeatWrapping

datatype filter_mode =
    NearestFilter
  | LinearFilter
  | NearestMipmapNearestFilter
  | LinearMipmapNearestFilter
  | NearestMipmapLinearFilter
  | LinearMipmapLinearFilter

text \<open>
  A texture: a wrap or filter field is \<open>None\<close> while the loader has left the library's
  default in place; \<open>tx_sRGB\<close> says that \<^verbatim>\<open>encoding\<close> was set to \<^verbatim>\<open>sRGBEncoding\<close>.
\<close>

record texture =
  tx_url :: image_url
  tx_wrapS :: "wrapping option"
  tx_wrapT :: "wrapping option"
  tx_magFilter :: "filter_mode option"
  tx_minFilter :: "filter_mode option"
  tx_flipY :: bool
  tx_sRGB :: bool

text \<open>
  The context object \<^verbatim>\<open>ctx\<close> that the stages pass along. \<^verbatim>\<open>ctx.images\<close> and
  \<^verbatim>\<open>ctx.textures\<close> are unset until \<^verbatim>\<open>_buildScene\<close> assigns them.
\<close>

record ctx =
  c_json :: document
  c_bin :: "bytes option"
  c_url :: "string option"
  c_images :: "image option list option"
  c_textures :: "texture option list option"

subsection \<open>Buffers, views and accessors\<close>

text \<open>
  \<^verbatim>\<open>_buildBuffers\<close>: the first buffer is the BIN chunk when there is one; any other
  buffer throws.
\<close>

definition buildBuffers :: "ctx \<Rightarrow> js_error + bytes list" where
  "buildBuffers c =
     map_index
       (\<lambda>b i. case c_bin c of
            Some bin \<Rightarrow>
              if i = 0 then Inr bin
              else Inl (Error ''Only single BIN buffer supported in this minimal loader'')
          | None \<Rightarrow> Inl (Error ''Only single BIN buffer supported in this minimal loader''))
       (d_buffers (c_json c))"

text \<open>\<^verbatim>\<open>x||0\<close> on an optional natural.\<close>

definition or_zero :: "nat option \<Rightarrow> nat" where
  "or_zero x = (case x of None \<Rightarrow> 0 | Some n \<Rightarrow> n)"

text \<open>
  The callback of the first \<^verbatim>\<open>map\<close> of \<^verbatim>\<open>_buildAccessors\<close>: a view is a slice of
  its buffer. \<^verbatim>\<open>buffers[v.buffer]\<close> may be \<^verbatim>\<open>undefined\<close>, and calling its
  \<^verbatim>\<open>slice\<close> is then a TypeError.
\<close>

definition buildView :: "bytes list \<Rightarrow> bufferView_def \<Rightarrow> js_error + bytes" where
  "buildView buffers v =
     (case index_opt buffers (v_buffer v) of
        None \<Rightarrow> Inl TypeError
      | Some buffer \<Rightarrow>
          Inr (slice buffer (or_zero (v_byteOffset v))
                 (or_zero (v_byteOffset v) + or_zero (v_byteLength v))))"

text \<open>
  Typed arrays. An integer array holds the integers its elements denote. A
  \<^verbatim>\<open>Float32Array\<close> element is either the float whose four bytes were read from a
  buffer (its bit pattern), or the float that storing a Number into the array leaves
  there (that Number, rounded by the store). Elements are read least significant byte
  first, the byte order of the platforms the loader runs on.
\<close>

datatype float32 = Float32_bits "32 word" | Float32_of rat

datatype typed_array =
    Int8Array "int list"
  | Uint8Array "int list"
  | Int16Array "int list"
  | Uint16Array "int list"
  | Uint32Array "int list"
  | Float32Array "float32 list"

datatype ctor = Int8 | Uint8 | Int16 | Uint16 | Uint32 | Float32

text \<open>
  The two tables of \<^verbatim>\<open>_buildAccessors\<close> are object literals. The component
  types are numbers, and a number names no inherited property. The element type is a
  string, and \<^verbatim>\<open>typeSizeMap[acc.type]\<close> also finds the properties that every object
  inherits from \<^verbatim>\<open>Object.prototype\<close>: each of them is a function or an object, so
  it is truthy and passes the guard of line 93, and as a number it is \<^verbatim>\<open>NaN\<close>.
\<close>

datatype item_size = Components nat | Inherited string

definition object_prototype_keys :: "string list" where
  "object_prototype_keys =
     [''constructor'', ''hasOwnProperty'', ''isPrototypeOf'', ''propertyIsEnumerable'',
      ''toLocaleString'', ''toString'', ''valueOf'', ''__proto__'', ''__defineGetter__'',
      ''__defineSetter__'', ''__lookupGetter__'', ''__lookupSetter__'']"

definition compTypeMap :: "nat \<Rightarrow> ctor option" where
  "compTypeMap t =
     (if t = 5120 then Some Int8 else if t = 5121 then Some Uint8
      else if t = 5122 then Some Int16 else if t = 5123 then Some Uint16
      else if t = 5125 then Some Uint32 else if t = 5126 then Some Float32
      else None)"

definition typeSizeMap :: "string \<Rightarrow> item_size option" where
  "typeSizeMap t =
     (if t = ''SCALAR'' then Some (Components 1) else if t = ''VEC2'' then Some (Components 2)
      else if t = ''VEC3'' then Some (Components 3) else if t = ''VEC4'' then Some (Components 4)
      else if t = ''MAT4'' then Some (Components 16) else if t = ''MAT3'' then Some (Components 9)
      else if t = ''MAT2'' then Some (Components 4)
      else if t \<in> set object_prototype_keys then Some (Inherited t)
      else None)"

text \<open>
  \<^verbatim>\<open>acc.count * numComp\<close>, as the constructor takes it for a length: \<^verbatim>\<open>NaN\<close> is
  the length 0.
\<close>

fun array_length_of :: "nat \<Rightarrow> item_size \<Rightarrow> nat" where
  "array_length_of n (Components k) = n * k"
| "array_length_of n (Inherited t) = 0"

fun BYTES_PER_ELEMENT :: "ctor \<Rightarrow> nat" where
  "BYTES_PER_ELEMENT Int8 = 1"
| "BYTES_PER_ELEMENT Uint8 = 1"
| "BYTES_PER_ELEMENT Int16 = 2"
| "BYTES_PER_ELEMENT Uint16 = 2"
| "BYTES_PER_ELEMENT Uint32 = 4"
| "BYTES_PER_ELEMENT Float32 = 4"

definition to_signed :: "nat \<Rightarrow> nat \<Rightarrow> int" where
  "to_signed bits n = (if n < 2 ^ (bits - 1) then int n else int n - 2 ^ bits)"

text \<open>The \<open>n\<close> elements of \<open>width\<close> bytes each that start at \<open>offset\<close>.\<close>

definition elements :: "bytes \<Rightarrow> nat \<Rightarrow> nat \<Rightarrow> nat \<Rightarrow> bytes list" where
  "elements buf offset width n =
     map (\<lambda>i. take width (drop (offset + i * width) buf)) [0..<n]"

fun view_as :: "ctor \<Rightarrow> bytes list \<Rightarrow> typed_array" where
  "view_as Int8 es = Int8Array (map (\<lambda>e. to_signed 8 (le_nat e)) es)"
| "view_as Uint8 es = Uint8Array (map (\<lambda>e. int (le_nat e)) es)"
| "view_as Int16 es = Int16Array (map (\<lambda>e. to_signed 16 (le_nat e)) es)"
| "view_as Uint16 es = Uint16Array (map (\<lambda>e. int (le_nat e)) es)"
| "view_as Uint32 es = Uint32Array (map (\<lambda>e. int (le_nat e)) es)"
| "view_as Float32 es = Float32Array (map (\<lambda>e. Float32_bits (word_of_nat (le_nat e))) es)"

text \<open>
  \<^verbatim>\<open>new Ctor(view, offset, length)\<close>. With \<^verbatim>\<open>view\<close> undefined the constructor takes
  its first argument for a length, \<^verbatim>\<open>ToIndex(undefined) = 0\<close>, and the array is
  empty. Over a buffer it throws a RangeError when the offset is not a multiple of the
  element size, and when \<open>offset + length * size\<close> passes the end of the buffer.
\<close>

definition new_typed_array :: "ctor \<Rightarrow> bytes option \<Rightarrow> nat \<Rightarrow> nat \<Rightarrow> js_error + typed_array" where
  "new_typed_array k view offset len =
     (case view of
        None \<Rightarrow> Inr (view_as k [])
      | Some buf \<Rightarrow>
          if offset mod BYTES_PER_ELEMENT k \<noteq> 0 then Inl RangeError
          else if offset + len * BYTES_PER_ELEMENT k > length buf then Inl RangeError
          else Inr (view_as k (elements buf offset (BYTES_PER_ELEMENT k) len)))"

text \<open>\<^verbatim>\<open>array.length\<close>.\<close>

fun array_length :: "typed_array \<Rightarrow> nat" where
  "array_length (Int8Array xs) = length xs"
| "array_length (Uint8Array xs) = length xs"
| "array_length (Int16Array xs) = length xs"
| "array_length (Uint16Array xs) = length xs"
| "array_length (Uint32Array xs) = length xs"
| "array_length (Float32Array xs) = length xs"

record accessor =
  a_array :: typed_array
  a_itemSize :: item_size
  a_normalized :: bool
  a_componentType :: nat
  a_count :: nat
  a_type :: string

text \<open>The callback of the second \<^verbatim>\<open>map\<close> of \<^verbatim>\<open>_buildAccessors\<close>.\<close>

definition buildAccessor :: "bytes list \<Rightarrow> accessor_def \<Rightarrow> js_error + accessor" where
  "buildAccessor views acc =
     (let view = index_opt views (acc_bufferView acc) in
      case acc_componentType acc of
        None \<Rightarrow> Inl (Error ''Unsupported componentType'')
      | Some ct \<Rightarrow>
     (case compTypeMap ct of
        None \<Rightarrow> Inl (Error ''Unsupported componentType'')
      | Some Ctor \<Rightarrow>
     (case acc_type acc of
        None \<Rightarrow> Inl (Error ''Unsupported type undefined'')
      | Some ty \<Rightarrow>
     (case typeSizeMap ty of
        None \<Rightarrow> Inl (Error (''Unsupported type '' @ ty))
      | Some numComp \<Rightarrow>
          (let offset = or_zero (acc_byteOffset acc);
               len = array_length_of (acc_count acc) numComp
           in case new_typed_array Ctor view offset len of
                Inl e \<Rightarrow> Inl e
              | Inr arr \<Rightarrow>
                  Inr \<lparr>a_array = arr, a_itemSize = numComp,
                       a_normalized = acc_normalized acc, a_componentType = ct,
                       a_count = acc_count acc, a_type = ty\<rparr>)))))"

definition buildAccessors :: "ctx \<Rightarrow> bytes list \<Rightarrow> js_error + accessor list" where
  "buildAccessors c buffers =
     (case map_result (buildView buffers) (d_bufferViews (c_json c)) of
        Inl e \<Rightarrow> Inl e
      | Inr views \<Rightarrow> map_result (buildAccessor views) (d_accessors (c_json c)))"


subsection \<open>Images and textures\<close>

text \<open>
  \<^verbatim>\<open>url.substring(0, url.lastIndexOf('/')+1)\<close>: the URL up to and including its last
  slash, empty when it has none or when there is no URL.
\<close>

definition basePath :: "string option \<Rightarrow> string" where
  "basePath url =
     (case url of
        None \<Rightarrow> []
      | Some u \<Rightarrow> take (length u - length (takeWhile (\<lambda>ch. ch \<noteq> CHR ''/'') (rev u))) u)"

text \<open>\<^verbatim>\<open>s||d\<close> on an optional string: the empty string is falsy.\<close>

definition or_string :: "string option \<Rightarrow> string \<Rightarrow> string" where
  "or_string s d = (case s of None \<Rightarrow> d | Some t \<Rightarrow> if t = [] then d else t)"

text \<open>
  The callback of \<^verbatim>\<open>_buildImages\<close>. Reading \<^verbatim>\<open>bv.byteOffset\<close> of a missing
  bufferView and calling \<^verbatim>\<open>bin.slice\<close> without a BIN chunk are TypeErrors.
\<close>

definition buildImage :: "ctx \<Rightarrow> image_def \<Rightarrow> js_error + image option" where
  "buildImage c img =
     (case img_bufferView img of
        Some bvi \<Rightarrow>
          (case nth_opt (d_bufferViews (c_json c)) bvi of
             None \<Rightarrow> Inl TypeError
           | Some bv \<Rightarrow>
               (let start = or_zero (v_byteOffset bv);
                    fin = start + or_zero (v_byteLength bv)
                in case c_bin c of
                     None \<Rightarrow> Inl TypeError
                   | Some bin \<Rightarrow>
                       Inr (Some \<lparr>i_url = ObjectURL (slice bin start fin)
                                          (or_string (img_mimeType img) ''image/png''),
                                  i_mimeType = img_mimeType img\<rparr>)))
      | None \<Rightarrow>
          (case img_uri img of
             None \<Rightarrow> Inr None
           | Some uri \<Rightarrow>
               if uri = [] then Inr None
               else if take 5 uri = ''data:''
               then Inr (Some \<lparr>i_url = Url uri,
                                i_mimeType = Some (or_string (img_mimeType img) [])\<rparr>)
               else Inr (Some \<lparr>i_url = Url (basePath (c_url c) @ uri),
                                i_mimeType = img_mimeType img\<rparr>)))"

definition buildImages :: "ctx \<Rightarrow> js_error + image option list" where
  "buildImages c = map_result (buildImage c) (d_images (c_json c))"

definition wrapMap :: "nat \<Rightarrow> wrapping option" where
  "wrapMap k =
     (if k = 33071 then Some ClampToEdgeWrapping
      else if k = 33648 then Some MirroredRepeatWrapping
      else if k = 10497 then Some RepeatWrapping else None)"

definition filterMap :: "nat \<Rightarrow> filter_mode option" where
  "filterMap k =
     (if k = 9728 then Some NearestFilter else if k = 9729 then Some LinearFilter
      else if k = 9984 then Some NearestMipmapNearestFilter
      else if k = 9985 then Some LinearMipmapNearestFilter
      else if k = 9986 then Some NearestMipmapLinearFilter
      else if k = 9987 then Some LinearMipmapLinearFilter else None)"

text \<open>\<^verbatim>\<open>if(code!=null && table[code]) field = table[code]\<close>.\<close>

definition lookup_code :: "(nat \<Rightarrow> 'a option) \<Rightarrow> nat option \<Rightarrow> 'a option" where
  "lookup_code table code = (case code of None \<Rightarrow> None | Some k \<Rightarrow> table k)"

definition buildTexture :: "ctx \<Rightarrow> texture_def \<Rightarrow> texture option" where
  "buildTexture c tex =
     (case t_source tex of
        None \<Rightarrow> None
      | Some src \<Rightarrow>
          (case (case c_images c of None \<Rightarrow> None | Some images \<Rightarrow> nth_opt images src) of
             Some (Some img) \<Rightarrow>
               (let t = \<lparr>tx_url = i_url img, tx_wrapS = None, tx_wrapT = None,
                         tx_magFilter = None, tx_minFilter = None, tx_flipY = True,
                         tx_sRGB = False\<rparr>;
                    t' = (case index_opt (d_samplers (c_json c)) (t_sampler tex) of
                            None \<Rightarrow> t
                          | Some s \<Rightarrow>
                              t\<lparr>tx_wrapS := lookup_code wrapMap (s_wrapS s),
                                tx_wrapT := lookup_code wrapMap (s_wrapT s),
                                tx_magFilter := lookup_code filterMap (s_magFilter s),
                                tx_minFilter := lookup_code filterMap (s_minFilter s)\<rparr>)
                in Some (t'\<lparr>tx_flipY := False\<rparr>))
           | _ \<Rightarrow> None))"

definition buildTextures :: "ctx \<Rightarrow> texture option list" where
  "buildTextures c = map (buildTexture c) (d_textures (c_json c))"


subsection \<open>Numbers\<close>

text \<open>
  JavaScript Numbers are binary floating point. The model keeps a Number as the
  rational it denotes and leaves the rounded operations the loader uses open: the
  product and the quotient of two Numbers, and the Number read from a float element.
  \<open>exact_ops\<close> computes without rounding; it agrees with the platform wherever the
  exact result is a Number, which is so in every closed example below. No example reads
  a float that is given by its bits, and \<open>exact_ops\<close> reads such a float as 0.
\<close>

record number_ops =
  num_mul :: "rat \<Rightarrow> rat \<Rightarrow> rat"
  num_div :: "rat \<Rightarrow> rat \<Rightarrow> rat"
  float32_value :: "float32 \<Rightarrow> rat"

definition exact_ops :: number_ops where
  "exact_ops =
     \<lparr>num_mul = (\<lambda>a b. a * b), num_div = (\<lambda>a b. a / b),
      float32_value = (\<lambda>f. case f of Float32_of q \<Rightarrow> q | Float32_bits w \<Rightarrow> 0)\<rparr>"

text \<open>Truthiness, \<^verbatim>\<open>v||0\<close> and \<^verbatim>\<open>ToNumber\<close> on a JSON value that may be absent.\<close>

fun truthy :: "jsval \<Rightarrow> bool" where
  "truthy JNull = False"
| "truthy (JBool b) = b"
| "truthy (JNum q) = (q \<noteq> 0)"

definition or0 :: "jsval option \<Rightarrow> jsval" where
  "or0 v = (case v of None \<Rightarrow> JNum 0 | Some x \<Rightarrow> if truthy x then x else JNum 0)"

fun ToNumber :: "jsval \<Rightarrow> rat" where
  "ToNumber JNull = 0"
| "ToNumber (JBool b) = (if b then 1 else 0)"
| "ToNumber (JNum q) = q"

text \<open>
  \<^verbatim>\<open>ToInt32\<close>: truncate towards zero, then wrap into the signed 32-bit range.
  \<^verbatim>\<open>x << k\<close> converts its left operand so, shifts, and wraps again; \<^verbatim>\<open>a | b\<close>
  converts both operands and joins their bits.
\<close>

definition trunc :: "rat \<Rightarrow> int" where
  "trunc x = (if 0 \<le> x then \<lfloor>x\<rfloor> else \<lceil>x\<rceil>)"

definition ToInt32 :: "rat \<Rightarrow> int" where
  "ToInt32 x = signed_take_bit 31 (trunc x)"

definition shift_left :: "rat \<Rightarrow> nat \<Rightarrow> int" where
  "shift_left x k = signed_take_bit 31 (push_bit k (ToInt32 x))"

text \<open>
  \<^verbatim>\<open>(a[i]||0)*255\<close> for a channel of a colour factor, and
  \<^verbatim>\<open>(r<<16)|(g<<8)|b\<close> over the first three channels.
\<close>

definition channel :: "number_ops \<Rightarrow> jsval list \<Rightarrow> nat \<Rightarrow> rat" where
  "channel ops a i = num_mul ops (ToNumber (or0 (nth_opt a i))) 255"

definition pack_color :: "number_ops \<Rightarrow> jsval list \<Rightarrow> int" where
  "pack_color ops a =
     (let r = channel ops a 0; g = channel ops a 1; b = channel ops a 2
      in (shift_left r 16 OR shift_left g 8) OR ToInt32 b)"

subsection \<open>Meshes\<close>

record bufferAttribute =
  ba_array :: typed_array
  ba_itemSize :: item_size
  ba_normalized :: bool

record geometry =
  g_position :: bufferAttribute
  g_normal :: "bufferAttribute option"
  g_color :: "bufferAttribute option"
  g_index :: "bufferAttribute option"

datatype side = DoubleSide

text \<open>
  The options given to \<^verbatim>\<open>MeshStandardMaterial\<close>. \<open>mo_transparent\<close> is \<open>False\<close> and
  the optional fields are \<open>None\<close> while the loader has not set them.
\<close>

record matOptions =
  mo_color :: int
  mo_metalness :: jsval
  mo_roughness :: jsval
  mo_transparent :: bool
  mo_opacity :: "jsval option"
  mo_map :: "texture option"
  mo_emissive :: "int option"
  mo_side :: "side option"
  mo_vertexColors :: bool

record mesh =
  me_geometry :: geometry
  me_material :: matOptions
  me_name :: string

record group =
  gr_name :: string
  gr_children :: "mesh list"

text \<open>The elements of a typed array, read as Numbers.\<close>

fun numbers :: "number_ops \<Rightarrow> typed_array \<Rightarrow> rat list" where
  "numbers ops (Int8Array xs) = map of_int xs"
| "numbers ops (Uint8Array xs) = map of_int xs"
| "numbers ops (Int16Array xs) = map of_int xs"
| "numbers ops (Uint16Array xs) = map of_int xs"
| "numbers ops (Uint32Array xs) = map of_int xs"
| "numbers ops (Float32Array fs) = map (float32_value ops) fs"

text \<open>
  Lines 120 to 131: the array attached for \<^verbatim>\<open>COLOR_0\<close>. A new
  \<^verbatim>\<open>Float32Array\<close> receives each element divided by 255 or 65535 when the accessor
  is not normalized and of component type 5121 or 5123.
\<close>

definition colorArray :: "number_ops \<Rightarrow> accessor \<Rightarrow> typed_array" where
  "colorArray ops cAcc =
     (if \<not> a_normalized cAcc then
        (if a_componentType cAcc = 5121
         then Float32Array
                (map (\<lambda>x. Float32_of (num_div ops x 255)) (numbers ops (a_array cAcc)))
         else if a_componentType cAcc = 5123
         then Float32Array
                (map (\<lambda>x. Float32_of (num_div ops x 65535)) (numbers ops (a_array cAcc)))
         else a_array cAcc)
      else a_array cAcc)"

text \<open>Lines 139 to 164: the material options of a primitive.\<close>

definition default_matOptions :: matOptions where
  "default_matOptions =
     \<lparr>mo_color = 0x2194f3, mo_metalness = JNum (1 / 10), mo_roughness = JNum (85 / 100),
      mo_transparent = False, mo_opacity = None, mo_map = None, mo_emissive = None,
      mo_side = None, mo_vertexColors = False\<rparr>"

text \<open>\<^verbatim>\<open>v != null\<close> on a JSON value that may be absent.\<close>

fun not_null :: "jsval option \<Rightarrow> bool" where
  "not_null None = False"
| "not_null (Some JNull) = False"
| "not_null (Some v) = True"

definition apply_baseColorFactor :: "number_ops \<Rightarrow> pbr_def \<Rightarrow> matOptions \<Rightarrow> matOptions" where
  "apply_baseColorFactor ops p mo =
     (case baseColorFactor p of
        None \<Rightarrow> mo
      | Some f \<Rightarrow>
          (let mo1 = mo\<lparr>mo_color := pack_color ops f\<rparr>
           in case nth_opt f 3 of
                None \<Rightarrow> mo1
              | Some alpha \<Rightarrow>
                  if not_null (Some alpha) \<and> ToNumber alpha < 1
                  then mo1\<lparr>mo_transparent := True, mo_opacity := Some alpha\<rparr>
                  else mo1))"

text \<open>
  Lines 150 to 152: \<open>baseColor_texture\<close> is the texture \<^verbatim>\<open>tex\<close> that passes the
  guards, if any.
\<close>

definition baseColor_texture :: "ctx \<Rightarrow> pbr_def \<Rightarrow> texture option" where
  "baseColor_texture c p =
     (case baseColorTexture p of
        None \<Rightarrow> None
      | Some ti \<Rightarrow>
          (case ti_index ti of
             None \<Rightarrow> None
           | Some i \<Rightarrow>
               (case c_textures c of
                  None \<Rightarrow> None
                | Some textures \<Rightarrow>
                    (case nth_opt textures i of Some (Some tex) \<Rightarrow> Some tex | _ \<Rightarrow> None))))"

definition apply_baseColorTexture :: "ctx \<Rightarrow> pbr_def \<Rightarrow> matOptions \<Rightarrow> matOptions" where
  "apply_baseColorTexture c p mo =
     (case baseColor_texture c p of
        None \<Rightarrow> mo
      | Some tex \<Rightarrow> mo\<lparr>mo_map := Some tex, mo_color := 0xffffff\<rparr>)"

definition apply_pbr :: "number_ops \<Rightarrow> ctx \<Rightarrow> pbr_def \<Rightarrow> matOptions \<Rightarrow> matOptions" where
  "apply_pbr ops c p mo =
     (let mo1 = apply_baseColorFactor ops p mo;
          mo2 = apply_baseColorTexture c p mo1;
          mo3 = (case metallicFactor p of
                   Some v \<Rightarrow> if not_null (Some v) then mo2\<lparr>mo_metalness := v\<rparr> else mo2
                 | None \<Rightarrow> mo2)
      in case roughnessFactor p of
           Some v \<Rightarrow> if not_null (Some v) then mo3\<lparr>mo_roughness := v\<rparr> else mo3
         | None \<Rightarrow> mo3)"

definition apply_material :: "number_ops \<Rightarrow> ctx \<Rightarrow> material_def \<Rightarrow> matOptions \<Rightarrow> matOptions" where
  "apply_material ops c mdef mo =
     (let mo1 = (case pbrMetallicRoughness mdef of None \<Rightarrow> mo | Some p \<Rightarrow> apply_pbr ops c p mo);
          mo2 = (case emissiveFactor mdef of
                   None \<Rightarrow> mo1
                 | Some e \<Rightarrow> mo1\<lparr>mo_emissive := Some (pack_color ops e)\<rparr>);
          mo3 = (if doubleSided mdef then mo2\<lparr>mo_side := Some DoubleSide\<rparr> else mo2)
      in if alphaMode mdef = Some ''BLEND''
         then (let mo4 = mo3\<lparr>mo_transparent := True\<rparr>
               in if not_null (mo_opacity mo4) then mo4
                  else mo4\<lparr>mo_opacity := Some (JNum (9 / 10))\<rparr>)
         else mo3)"

definition resolve_material :: "number_ops \<Rightarrow> ctx \<Rightarrow> primitive_def \<Rightarrow> bool \<Rightarrow> matOptions" where
  "resolve_material ops c prim usesVertexColor =
     (let mo = (case index_opt (d_materials (c_json c)) (p_material prim) of
                  None \<Rightarrow> default_matOptions
                | Some mdef \<Rightarrow> apply_material ops c mdef default_matOptions)
      in if usesVertexColor then mo\<lparr>mo_vertexColors := True\<rparr> else mo)"


text \<open>
  An optional attribute: \<^verbatim>\<open>accessors[i]\<close> may be \<^verbatim>\<open>undefined\<close>, and reading its
  \<^verbatim>\<open>array\<close> is then a TypeError.
\<close>

definition optional_attribute ::
  "accessor list \<Rightarrow> nat option \<Rightarrow> (accessor \<Rightarrow> bufferAttribute) \<Rightarrow> js_error + bufferAttribute option" where
  "optional_attribute accessors i mk =
     (case i of
        None \<Rightarrow> Inr None
      | Some k \<Rightarrow>
          (case nth_opt accessors k of
             None \<Rightarrow> Inl TypeError
           | Some a \<Rightarrow> Inr (Some (mk a))))"

text \<open>Decimal digits of an index, for \<^verbatim>\<open>'_'+idx\<close>.\<close>

fun decimal :: "nat \<Rightarrow> string" where
  "decimal n =
     (if n < 10 then [''0123456789'' ! n]
      else decimal (n div 10) @ [''0123456789'' ! (n mod 10)])"

declare decimal.simps [simp del]

text \<open>
  Lines 110 to 137: the geometry of a primitive whose \<^verbatim>\<open>POSITION\<close> is \<open>pos\<close>.
  \<open>usesVertexColor\<close> is set exactly when a colour attribute was attached.
\<close>

definition buildGeometry ::
  "number_ops \<Rightarrow> accessor list \<Rightarrow> attributes_def \<Rightarrow> nat option \<Rightarrow> nat \<Rightarrow> js_error + geometry" where
  "buildGeometry ops accessors attrs indices pos =
     (case nth_opt accessors pos of
        None \<Rightarrow> Inl TypeError
      | Some posAcc \<Rightarrow>
     (case optional_attribute accessors (NORMAL attrs)
             (\<lambda>nAcc. \<lparr>ba_array = a_array nAcc, ba_itemSize = a_itemSize nAcc,
                       ba_normalized = a_normalized nAcc\<rparr>) of
        Inl e \<Rightarrow> Inl e
      | Inr normal \<Rightarrow>
     (case optional_attribute accessors (COLOR_0 attrs)
             (\<lambda>cAcc. \<lparr>ba_array = colorArray ops cAcc, ba_itemSize = a_itemSize cAcc,
                       ba_normalized = False\<rparr>) of
        Inl e \<Rightarrow> Inl e
      | Inr color \<Rightarrow>
     (case optional_attribute accessors indices
             (\<lambda>iAcc. \<lparr>ba_array = a_array iAcc, ba_itemSize = Components 1,
                       ba_normalized = False\<rparr>) of
        Inl e \<Rightarrow> Inl e
      | Inr index \<Rightarrow>
          Inr \<lparr>g_position = \<lparr>ba_array = a_array posAcc, ba_itemSize = a_itemSize posAcc,
                              ba_normalized = a_normalized posAcc\<rparr>,
               g_normal = normal, g_color = color, g_index = index\<rparr>))))"

text \<open>Line 166: a material with a map has the map's encoding set.\<close>

definition new_material :: "matOptions \<Rightarrow> matOptions" where
  "new_material mo =
     (case mo_map mo of
        None \<Rightarrow> mo
      | Some t \<Rightarrow> mo\<lparr>mo_map := Some (t\<lparr>tx_sRGB := True\<rparr>)\<rparr>)"

text \<open>
  The callback of \<^verbatim>\<open>forEach\<close> in \<^verbatim>\<open>_buildMesh\<close>, for one primitive: it returns
  early after a warning, throws, or adds a mesh to the group.
\<close>

datatype 'a outcome = Skipped string | Thrown js_error | Built 'a

definition buildPrimitive ::
  "number_ops \<Rightarrow> ctx \<Rightarrow> mesh_def \<Rightarrow> accessor list \<Rightarrow> primitive_def \<Rightarrow> nat \<Rightarrow> mesh outcome" where
  "buildPrimitive ops c meshDef accessors prim idx =
     (if (case p_mode prim of None \<Rightarrow> False | Some m \<Rightarrow> m \<noteq> 0 \<and> m \<noteq> 4)
      then Skipped ''Primitive mode not TRIANGLES, skipped''
      else
     (case p_attributes prim of
        None \<Rightarrow> Skipped ''Primitive missing POSITION''
      | Some attrs \<Rightarrow>
     (case POSITION attrs of
        None \<Rightarrow> Skipped ''Primitive missing POSITION''
      | Some pos \<Rightarrow>
     (case buildGeometry ops accessors attrs (p_indices prim) pos of
        Inl e \<Rightarrow> Thrown e
      | Inr geometry \<Rightarrow>
          Built \<lparr>me_geometry = geometry,
                 me_material =
                   new_material (resolve_material ops c prim (g_color geometry \<noteq> None)),
                 me_name = or_string (m_name meshDef) ''mesh'' @ ''_'' @ decimal idx\<rparr>))))"

text \<open>
  The \<^verbatim>\<open>forEach\<close> of \<^verbatim>\<open>_buildMesh\<close>, from index \<open>idx\<close> on: the warnings written
  and the meshes added so far are carried along.
\<close>

fun forEach_primitive ::
  "number_ops \<Rightarrow> ctx \<Rightarrow> mesh_def \<Rightarrow> accessor list \<Rightarrow> nat \<Rightarrow> primitive_def list \<Rightarrow>
   string list \<Rightarrow> mesh list \<Rightarrow> string list \<times> (js_error + mesh list)" where
  "forEach_primitive ops c meshDef accessors idx [] ws ms = (ws, Inr ms)"
| "forEach_primitive ops c meshDef accessors idx (prim # prims) ws ms =
     (case buildPrimitive ops c meshDef accessors prim idx of
        Skipped w \<Rightarrow> forEach_primitive ops c meshDef accessors (Suc idx) prims (ws @ [w]) ms
      | Thrown e \<Rightarrow> (ws, Inl e)
      | Built m \<Rightarrow> forEach_primitive ops c meshDef accessors (Suc idx) prims ws (ms @ [m]))"

definition buildMesh ::
  "number_ops \<Rightarrow> ctx \<Rightarrow> mesh_def \<Rightarrow> accessor list \<Rightarrow> string list \<times> (js_error + group)" where
  "buildMesh ops c meshDef accessors =
     (case forEach_primitive ops c meshDef accessors 0 (m_primitives meshDef) [] [] of
        (ws, Inl e) \<Rightarrow> (ws, Inl e)
      | (ws, Inr ms) \<Rightarrow>
          (ws, Inr \<lparr>gr_name = or_string (m_name meshDef) ''mesh'', gr_children = ms\<rparr>))"

subsection \<open>Nodes and the scene\<close>

text \<open>
  A node object: its name, the clone of its mesh group, and its transform.
  \<^verbatim>\<open>fromArray\<close> and \<^verbatim>\<open>quaternion.set\<close> copy the leading elements of an array; an
  element the array does not have is \<^verbatim>\<open>undefined\<close>.
\<close>

record node_obj =
  o_name :: string
  o_mesh :: "group option"
  o_position :: "rat option list"
  o_scale :: "rat option list"
  o_quaternion :: "rat option list"

definition leading :: "nat \<Rightarrow> rat list \<Rightarrow> rat option list" where
  "leading n a = map (nth_opt a) [0..<n]"

definition buildNode :: "ctx \<Rightarrow> node_def \<Rightarrow> group list \<Rightarrow> js_error + node_obj" where
  "buildNode c nodeDef meshes =
     (case (case n_mesh nodeDef of
              None \<Rightarrow> Inr None
            | Some k \<Rightarrow> (case nth_opt meshes k of None \<Rightarrow> Inl TypeError | Some g \<Rightarrow> Inr (Some g))) of
        Inl e \<Rightarrow> Inl e
      | Inr clone \<Rightarrow>
          Inr \<lparr>o_name = or_string (n_name nodeDef) ''node'',
               o_mesh = clone,
               o_position = (case n_translation nodeDef of
                               None \<Rightarrow> [Some 0, Some 0, Some 0]
                             | Some t \<Rightarrow> leading 3 t),
               o_scale = (case n_scale nodeDef of
                            None \<Rightarrow> [Some 1, Some 1, Some 1]
                          | Some t \<Rightarrow> leading 3 t),
               o_quaternion = (case n_rotation nodeDef of
                                 None \<Rightarrow> [Some 0, Some 0, Some 0, Some 1]
                               | Some r \<Rightarrow> leading 4 r)\<rparr>)"

text \<open>\<^verbatim>\<open>xs.map(f)\<close> with a callback that warns and may throw.\<close>

fun map_warn ::
  "('a \<Rightarrow> string list \<times> (js_error + 'b)) \<Rightarrow> 'a list \<Rightarrow> string list \<times> (js_error + 'b list)" where
  "map_warn f [] = ([], Inr [])"
| "map_warn f (x # xs) =
     (case f x of
        (ws, Inl e) \<Rightarrow> (ws, Inl e)
      | (ws, Inr y) \<Rightarrow>
          (case map_warn f xs of
             (ws', Inl e) \<Rightarrow> (ws @ ws', Inl e)
           | (ws', Inr ys) \<Rightarrow> (ws @ ws', Inr (y # ys))))"

text \<open>
  The scene root. The library's \<^verbatim>\<open>add\<close> is recorded as the calls made: \<open>sc_links\<close>
  holds a pair \<open>(i, cid)\<close> for every call \<^verbatim>\<open>nodes[i].add(nodes[cid])\<close>, and
  \<open>sc_children\<close> the index \<open>id\<close> of every call \<^verbatim>\<open>scene.add(nodes[id])\<close>, both
  in the order of the calls.
\<close>

record scene =
  sc_name :: string
  sc_objects :: "node_obj list"
  sc_links :: "(nat \<times> nat) list"
  sc_children :: "nat list"

text \<open>Lines 57 to 63 of \<^verbatim>\<open>_buildScene\<close>: everything up to the node objects.\<close>

definition buildObjects :: "number_ops \<Rightarrow> ctx \<Rightarrow> string list \<times> (js_error + node_obj list)" where
  "buildObjects ops c =
     (case buildBuffers c of
        Inl e \<Rightarrow> ([], Inl e)
      | Inr buffers \<Rightarrow>
     (case buildAccessors c buffers of
        Inl e \<Rightarrow> ([], Inl e)
      | Inr accessors \<Rightarrow>
     (case buildImages c of
        Inl e \<Rightarrow> ([], Inl e)
      | Inr images \<Rightarrow>
          (let c1 = c\<lparr>c_images := Some images\<rparr>;
               c2 = c1\<lparr>c_textures := Some (buildTextures c1)\<rparr>
           in case map_warn (\<lambda>m. buildMesh ops c2 m accessors) (d_meshes (c_json c)) of
                (ws, Inl e) \<Rightarrow> (ws, Inl e)
              | (ws, Inr meshes) \<Rightarrow>
                  (case map_result (\<lambda>n. buildNode c2 n meshes) (d_nodes (c_json c)) of
                     Inl e \<Rightarrow> (ws, Inl e)
                   | Inr nodes \<Rightarrow> (ws, Inr nodes))))))"

text \<open>Line 65: the calls \<^verbatim>\<open>nodes[i].add(nodes[cid])\<close>, guarded by \<^verbatim>\<open>if(nodes[cid])\<close>.\<close>

definition node_links :: "nat \<Rightarrow> nat \<Rightarrow> node_def \<Rightarrow> (nat \<times> nat) list" where
  "node_links n i d =
     (case n_children d of
        None \<Rightarrow> []
      | Some cs \<Rightarrow> map (\<lambda>cid. (i, cid)) (filter (\<lambda>cid. cid < n) cs))"

definition link_children :: "node_def list \<Rightarrow> nat \<Rightarrow> (nat \<times> nat) list" where
  "link_children defs n = concat (map (\<lambda>(i, d). node_links n i d) (enumerate 0 defs))"

text \<open>Lines 68 and 69: the scene definition chosen, and the calls \<^verbatim>\<open>scene.add\<close>.\<close>

definition sceneDef_nodes :: "document \<Rightarrow> nat list" where
  "sceneDef_nodes json =
     (case nth_opt (d_scenes json) (or_zero (d_scene json)) of
        None \<Rightarrow> []
      | Some sceneDef \<Rightarrow> (case sc_nodes sceneDef of None \<Rightarrow> [] | Some ids \<Rightarrow> ids))"

definition scene_children :: "document \<Rightarrow> nat \<Rightarrow> nat list" where
  "scene_children json n = filter (\<lambda>id. id < n) (sceneDef_nodes json)"

definition buildScene :: "number_ops \<Rightarrow> ctx \<Rightarrow> string list \<times> (js_error + scene)" where
  "buildScene ops c =
     (case buildObjects ops c of
        (ws, Inl e) \<Rightarrow> (ws, Inl e)
      | (ws, Inr nodes) \<Rightarrow>
          (ws, Inr \<lparr>sc_name = ''GLBScene'', sc_objects = nodes,
                    sc_links = link_children (d_nodes (c_json c)) (length nodes),
                    sc_children = scene_children (c_json c) (length nodes)\<rparr>))"


subsection \<open>The container\<close>

text \<open>
  \<^verbatim>\<open>JSON.parse(new TextDecoder().decode(bytes))\<close> belongs to the platform and is a
  parameter of the parser. It throws a SyntaxError, or returns a value: a falsy one
  (\<^verbatim>\<open>null\<close>, \<^verbatim>\<open>false\<close>, \<^verbatim>\<open>0\<close>, the empty string), which the loader then takes
  for a missing chunk, or a document.
\<close>

datatype json_parsed = Throws | Falsy | Parsed document

text \<open>
  The \<^verbatim>\<open>while\<close> loop of \<^verbatim>\<open>parse\<close>, from \<^verbatim>\<open>offset\<close> on, with the \<^verbatim>\<open>json\<close> and
  \<^verbatim>\<open>bin\<close> found so far. \<open>len\<close> is the length the header declares.
\<close>

function read_chunks ::
  "(bytes \<Rightarrow> json_parsed) \<Rightarrow> bytes \<Rightarrow> nat \<Rightarrow> nat \<Rightarrow> document option \<Rightarrow> bytes option \<Rightarrow>
   js_error + (document option \<times> bytes option)" where
  "read_chunks jp arrayBuffer len offset json bin =
     (if offset < len then
        (case getUint32 arrayBuffer offset of
           Inl e \<Rightarrow> Inl e
         | Inr chunkLen \<Rightarrow>
             (case getUint32 arrayBuffer (offset + 4) of
                Inl e \<Rightarrow> Inl e
              | Inr chunkType \<Rightarrow>
                  (if chunkType = 0x4E4F534A then
                     (case jp (slice arrayBuffer (offset + 8) (offset + 8 + chunkLen)) of
                        Throws \<Rightarrow> Inl SyntaxError
                      | Falsy \<Rightarrow>
                          read_chunks jp arrayBuffer len (offset + 8 + chunkLen) None bin
                      | Parsed d \<Rightarrow>
                          read_chunks jp arrayBuffer len (offset + 8 + chunkLen) (Some d) bin)
                   else if chunkType = 0x004E4942 then
                     read_chunks jp arrayBuffer len (offset + 8 + chunkLen) json
                       (Some (slice arrayBuffer (offset + 8) (offset + 8 + chunkLen)))
                   else read_chunks jp arrayBuffer len (offset + 8 + chunkLen) json bin)))
      else Inr (json, bin))"
  by pat_completeness auto
termination
  by (relation "measure (\<lambda>(jp, arrayBuffer, len, offset, json, bin). len - offset)") auto

declare read_chunks.simps [simp del]

text \<open>
  What \<^verbatim>\<open>parse\<close> returns (\<^verbatim>\<open>parser\<close> is the loader itself, and \<^verbatim>\<open>asset\<close> a
  property of the document handed on as it is).
\<close>

record gltf =
  gl_scene :: scene
  gl_scenes :: "scene list"
  gl_json :: document

text \<open>Lines 49 to 52: after the loop.\<close>

definition build_result ::
  "number_ops \<Rightarrow> string option \<Rightarrow> document option \<Rightarrow> bytes option \<Rightarrow>
   string list \<times> (js_error + gltf)" where
  "build_result ops url json bin =
     (case json of
        None \<Rightarrow> ([], Inl (Error ''Missing JSON chunk''))
      | Some j \<Rightarrow>
          (case buildScene ops
                  \<lparr>c_json = j, c_bin = bin, c_url = url, c_images = None, c_textures = None\<rparr> of
             (ws, Inl e) \<Rightarrow> (ws, Inl e)
           | (ws, Inr scene) \<Rightarrow>
               (ws, Inr \<lparr>gl_scene = scene, gl_scenes = [scene], gl_json = j\<rparr>)))"

definition parse ::
  "number_ops \<Rightarrow> (bytes \<Rightarrow> json_parsed) \<Rightarrow> bytes \<Rightarrow> string option \<Rightarrow>
   string list \<times> (js_error + gltf)" where
  "parse ops jp arrayBuffer url =
     (case getUint32 arrayBuffer 0 of
        Inl e \<Rightarrow> ([], Inl e)
      | Inr magic \<Rightarrow>
     (if magic \<noteq> 0x46546C67 then ([], Inl (Error ''Not a GLB file''))
      else
     (case getUint32 arrayBuffer 4 of
        Inl e \<Rightarrow> ([], Inl e)
      | Inr version \<Rightarrow>
     (if version \<noteq> 2 then ([], Inl (Error ''Only glTF 2.0 supported''))
      else
     (case getUint32 arrayBuffer 8 of
        Inl e \<Rightarrow> ([], Inl e)
      | Inr len \<Rightarrow>
          (let warned = (if len \<noteq> length arrayBuffer then [''GLB length mismatch''] else [])
           in case read_chunks jp arrayBuffer len 12 None None of
                Inl e \<Rightarrow> (warned, Inl e)
              | Inr (json, bin) \<Rightarrow>
                  (case build_result ops url json bin of (ws, r) \<Rightarrow> (warned @ ws, r))))))))"

text \<open>
  A stand-in for the platform's decoder in the closed examples: the text \<^verbatim>\<open>{}\<close> is
  the document with no properties, the text \<^verbatim>\<open>null\<close> is falsy, and every other text
  is taken for unparsable. The examples feed it the texts \<^verbatim>\<open>{}\<close>, \<^verbatim>\<open>null\<close> and
  \<^verbatim>\<open>x\<close> only, on which it agrees with \<^verbatim>\<open>JSON.parse\<close>.
\<close>

definition decode_braces :: "bytes \<Rightarrow> json_parsed" where
  "decode_braces bs =
     (if bs = [0x7B, 0x7D] then Parsed empty_document
      else if bs = [0x6E, 0x75, 0x6C, 0x6C] then Falsy
      else Throws)"


text \<open>
  The layout the parser reads, written as an encoder, so that a container can be
  described by the chunks it holds: a chunk is its type tag and its payload, and
  \<open>glb declared body\<close> is a header declaring the total length \<open>declared\<close>, followed by
  \<open>body\<close>.
\<close>

definition le32 :: "nat \<Rightarrow> bytes" where
  "le32 n = [word_of_nat n, word_of_nat (n div 256), word_of_nat (n div 256 div 256),
             word_of_nat (n div 256 div 256 div 256)]"

definition encode_chunk :: "nat \<times> bytes \<Rightarrow> bytes" where
  "encode_chunk ch = le32 (length (snd ch)) @ le32 (fst ch) @ snd ch"

definition encode_chunks :: "(nat \<times> bytes) list \<Rightarrow> bytes" where
  "encode_chunks cs = concat (map encode_chunk cs)"

definition glb :: "nat \<Rightarrow> bytes \<Rightarrow> bytes" where
  "glb declared body = le32 0x46546C67 @ le32 2 @ le32 declared @ body"

definition well_formed :: "(nat \<times> bytes) list \<Rightarrow> bool" where
  "well_formed cs = list_all (\<lambda>ch. fst ch < 2 ^ 32 \<and> length (snd ch) < 2 ^ 32) cs"

text \<open>The document a decoded JSON text leaves in \<^verbatim>\<open>json\<close>, if any.\<close>

fun json_of :: "json_parsed \<Rightarrow> document option" where
  "json_of (Parsed d) = Some d"
| "json_of Falsy = None"
| "json_of Throws = None"

definition no_throw :: "(bytes \<Rightarrow> json_parsed) \<Rightarrow> (nat \<times> bytes) list \<Rightarrow> bool" where
  "no_throw jp cs = list_all (\<lambda>ch. fst ch = 0x4E4F534A \<longrightarrow> jp (snd ch) \<noteq> Throws) cs"

text \<open>The payload of the last chunk of a type, if the list has one.\<close>

definition last_of :: "nat \<Rightarrow> (nat \<times> bytes) list \<Rightarrow> bytes option" where
  "last_of ty cs =
     (case filter (\<lambda>ch. fst ch = ty) cs of [] \<Rightarrow> None | x # xs \<Rightarrow> Some (snd (last (x # xs))))"

text \<open>
  What the loop does to a list of chunks, one after the other, starting from the
  \<^verbatim>\<open>json\<close> and \<^verbatim>\<open>bin\<close> found so far.
\<close>

fun chunk_fold ::
  "(bytes \<Rightarrow> json_parsed) \<Rightarrow> (nat \<times> bytes) list \<Rightarrow> document option \<Rightarrow> bytes option \<Rightarrow>
   js_error + (document option \<times> bytes option)" where
  "chunk_fold jp [] json bin = Inr (json, bin)"
| "chunk_fold jp (ch # cs) json bin =
     (if fst ch = 0x4E4F534A then
        (case jp (snd ch) of
           Throws \<Rightarrow> Inl SyntaxError
         | Falsy \<Rightarrow> chunk_fold jp cs None bin
         | Parsed d \<Rightarrow> chunk_fold jp cs (Some d) bin)
      else if fst ch = 0x004E4942 then chunk_fold jp cs json (Some (snd ch))
      else chunk_fold jp cs json bin)"


subsection \<open>Inputs of the closed examples\<close>

definition dangling_document :: document where
  "dangling_document =
     empty_document
       \<lparr>d_nodes := [\<lparr>n_name = None, n_mesh = None, n_translation = None, n_scale = None,
                    n_rotation = None, n_children = Some [7]\<rparr>],
        d_scenes := [\<lparr>sc_nodes = Some [0, 9]\<rparr>]\<rparr>"

definition dangling_ctx :: ctx where
  "dangling_ctx =
     \<lparr>c_json = dangling_document, c_bin = None, c_url = None, c_images = None,
      c_textures = None\<rparr>"

text \<open>
  Three nodes: the first lists the children 1, 2, 1, 0 and 5, the third the child 9; the
  scene lists the nodes 2, 7, 0 and 2.
\<close>

definition linked_document :: document where
  "linked_document =
     empty_document
       \<lparr>d_nodes := [\<lparr>n_name = None, n_mesh = None, n_translation = None, n_scale = None,
                    n_rotation = None, n_children = Some [1, 2, 1, 0, 5]\<rparr>,
                   \<lparr>n_name = None, n_mesh = None, n_translation = None, n_scale = None,
                    n_rotation = None, n_children = None\<rparr>,
                   \<lparr>n_name = None, n_mesh = None, n_translation = None, n_scale = None,
                    n_rotation = None, n_children = Some [9]\<rparr>],
        d_scenes := [\<lparr>sc_nodes = Some [2, 7, 0, 2]\<rparr>]\<rparr>"

definition linked_ctx :: ctx where
  "linked_ctx =
     \<lparr>c_json = linked_document, c_bin = None, c_url = None, c_images = None,
      c_textures = None\<rparr>"

definition plain_node :: node_obj where
  "plain_node =
     \<lparr>o_name = ''node'', o_mesh = None, o_position = [Some 0, Some 0, Some 0],
      o_scale = [Some 1, Some 1, Some 1], o_quaternion = [Some 0, Some 0, Some 0, Some 1]\<rparr>"

definition red_material :: "string option \<Rightarrow> textureInfo_def option \<Rightarrow> material_def" where
  "red_material mode ti =
     \<lparr>pbrMetallicRoughness =
        Some \<lparr>baseColorFactor = Some [JNum 1, JNum 0, JNum 0, JNum (1 / 2)],
              baseColorTexture = ti, metallicFactor = None, roughnessFactor = None\<rparr>,
      emissiveFactor = None, doubleSided = False, alphaMode = mode\<rparr>"

definition example_texture :: texture where
  "example_texture =
     \<lparr>tx_url = Url ''a.png'', tx_wrapS = None, tx_wrapT = None, tx_magFilter = None,
      tx_minFilter = None, tx_flipY = False, tx_sRGB = False\<rparr>"

definition material_ctx :: "material_def \<Rightarrow> ctx" where
  "material_ctx mdef =
     \<lparr>c_json = empty_document\<lparr>d_materials := [mdef]\<rparr>, c_bin = None, c_url = None,
      c_images = Some [], c_textures = Some [Some example_texture]\<rparr>"

definition material_primitive :: primitive_def where
  "material_primitive =
     \<lparr>p_mode = None,
      p_attributes = Some \<lparr>POSITION = Some 0, NORMAL = None, COLOR_0 = None\<rparr>,
      p_indices = None, p_material = Some 0\<rparr>"

definition color_accessor_def :: accessor_def where
  "color_accessor_def =
     \<lparr>acc_bufferView = Some 0, acc_byteOffset = None, acc_componentType = Some 5121,
      acc_type = Some ''VEC4'', acc_count = 1, acc_normalized = False\<rparr>"

definition short_accessor_def :: "nat \<Rightarrow> nat \<Rightarrow> accessor_def" where
  "short_accessor_def offset n =
     \<lparr>acc_bufferView = Some 0, acc_byteOffset = Some offset, acc_componentType = Some 5123,
      acc_type = Some ''SCALAR'', acc_count = n, acc_normalized = False\<rparr>"

text \<open>
  The accessor that \<open>color_accessor_def\<close> resolves to over the bytes 255, 128, 0, 255,
  with the \<^verbatim>\<open>normalized\<close> flag as given, and a primitive that uses accessor 0 for its
  position, its normal and its colour.
\<close>

definition color_accessor :: "bool \<Rightarrow> accessor" where
  "color_accessor n =
     \<lparr>a_array = Uint8Array [255, 128, 0, 255], a_itemSize = Components 4, a_normalized = n,
      a_componentType = 5121, a_count = 1, a_type = ''VEC4''\<rparr>"

text \<open>
  The mesh built from \<open>color_primitive\<close>: position and normal carry the accessor's
  flag \<open>n\<close>, and the colour attribute holds the array \<open>colors\<close>.
\<close>

definition color_mesh :: "bool \<Rightarrow> typed_array \<Rightarrow> mesh" where
  "color_mesh n colors =
     \<lparr>me_geometry =
        \<lparr>g_position = \<lparr>ba_array = Uint8Array [255, 128, 0, 255], ba_itemSize = Components 4,
                        ba_normalized = n\<rparr>,
         g_normal = Some \<lparr>ba_array = Uint8Array [255, 128, 0, 255], ba_itemSize = Components 4,
                           ba_normalized = n\<rparr>,
         g_color = Some \<lparr>ba_array = colors, ba_itemSize = Components 4,
                          ba_normalized = False\<rparr>,
         g_index = None\<rparr>,
      me_material = default_matOptions\<lparr>mo_vertexColors := True\<rparr>,
      me_name = ''mesh_0''\<rparr>"

definition color_primitive :: primitive_def where
  "color_primitive =
     \<lparr>p_mode = None,
      p_attributes = Some \<lparr>POSITION = Some 0, NORMAL = Some 0, COLOR_0 = Some 0\<rparr>,
      p_indices = None, p_material = None\<rparr>"

definition empty_accessor :: accessor where
  "empty_accessor =
     \<lparr>a_array = Float32Array [], a_itemSize = Components 3, a_normalized = False,
      a_componentType = 5126,
      a_count = 0, a_type = ''VEC3''\<rparr>"

definition mode_primitive :: "nat option \<Rightarrow> primitive_def" where
  "mode_primitive m =
     \<lparr>p_mode = m,
      p_attributes = Some \<lparr>POSITION = Some 0, NORMAL = None, COLOR_0 = None\<rparr>,
      p_indices = None, p_material = None\<rparr>"

definition plain_ctx :: ctx where
  "plain_ctx =
     \<lparr>c_json = empty_document, c_bin = None, c_url = None, c_images = Some [],
      c_textures = Some []\<rparr>"

definition plain_mesh :: "string \<Rightarrow> mesh" where
  "plain_mesh name =
     \<lparr>me_geometry =
        \<lparr>g_position = \<lparr>ba_array = Float32Array [], ba_itemSize = Components 3,
                        ba_normalized = False\<rparr>,
         g_normal = None, g_color = None, g_index = None\<rparr>,
      me_material = default_matOptions, me_name = name\<rparr>"

definition empty_scene :: scene where
  "empty_scene = \<lparr>sc_name = ''GLBScene'', sc_objects = [], sc_links = [], sc_children = []\<rparr>"

definition empty_gltf :: gltf where
  "empty_gltf = \<lparr>gl_scene = empty_scene, gl_scenes = [empty_scene], gl_json = empty_document\<rparr>"

text \<open>Chunks: the JSON text \<^verbatim>\<open>{}\<close>, the JSON text \<^verbatim>\<open>x\<close>, the JSON text \<^verbatim>\<open>null\<close>.\<close>

definition braces_chunk :: "nat \<times> bytes" where
  "braces_chunk = (0x4E4F534A, [0x7B, 0x7D])"

definition x_chunk :: "nat \<times> bytes" where
  "x_chunk = (0x4E4F534A, [0x78])"

definition null_chunk :: "nat \<times> bytes" where
  "null_chunk = (0x4E4F534A, [0x6E, 0x75, 0x6C, 0x6C])"

text \<open>A container whose only chunk declares 1000 bytes and holds the two of \<^verbatim>\<open>{}\<close>.\<close>

definition oversized_container :: bytes where
  "oversized_container = glb 22 (le32 1000 @ le32 0x4E4F534A @ [0x7B, 0x7D])"

text \<open>
  Four chunks: the JSON text \<^verbatim>\<open>null\<close>, a BIN payload, the JSON text \<^verbatim>\<open>{}\<close>, a second
  BIN payload.
\<close>

definition mixed_chunks :: "(nat \<times> bytes) list" where
  "mixed_chunks = [null_chunk, (0x004E4942, [1]), braces_chunk, (0x004E4942, [2, 3])]"

section \<open>Views and accessors\<close>

lemma buildView_length: "buildView buffers v = Inr view \<Longrightarrow> length view \<le> or_zero (v_byteLength v)"
  by (auto simp: buildView_def slice_def split: option.splits)

lemma array_length_view_as: "array_length (view_as k es) = length es"
  by (cases k) simp_all

lemma new_typed_array_range:
  "length buf < offset + len * BYTES_PER_ELEMENT k \<Longrightarrow>
   new_typed_array k (Some buf) offset len = Inl RangeError"
  by (simp add: new_typed_array_def)

lemma new_typed_array_ok:
  "offset + len * BYTES_PER_ELEMENT k \<le> length buf \<Longrightarrow> offset mod BYTES_PER_ELEMENT k = 0 \<Longrightarrow>
   \<exists>arr. new_typed_array k (Some buf) offset len = Inr arr \<and> array_length arr = len"
  by (simp add: new_typed_array_def array_length_view_as elements_def)

lemma new_typed_array_unaligned:
  "offset mod BYTES_PER_ELEMENT k \<noteq> 0 \<Longrightarrow>
   new_typed_array k (Some buf) offset len = Inl RangeError"
  by (simp add: new_typed_array_def)

lemma new_typed_array_view_as:
  "new_typed_array k view offset len = Inr arr \<Longrightarrow> \<exists>es. arr = view_as k es"
  by (auto simp: new_typed_array_def split: option.splits if_splits)

lemma compTypeMap_cases:
  "compTypeMap 5121 = Some Uint8" "compTypeMap 5123 = Some Uint16" "compTypeMap 5126 = Some Float32"
  by (simp_all add: compTypeMap_def)

lemma buildAccessor_Inr:
  assumes "buildAccessor views acc = Inr cAcc"
  shows "\<exists>k es. compTypeMap (a_componentType cAcc) = Some k \<and> a_array cAcc = view_as k es"
proof -
  obtain ct where ct: "acc_componentType acc = Some ct"
    using assms by (cases "acc_componentType acc") (simp_all add: buildAccessor_def)
  obtain k where k: "compTypeMap ct = Some k"
    using assms ct by (cases "compTypeMap ct") (simp_all add: buildAccessor_def)
  obtain ty where ty: "acc_type acc = Some ty"
    using assms ct k by (cases "acc_type acc") (simp_all add: buildAccessor_def)
  obtain n where n: "typeSizeMap ty = Some n"
    using assms ct k ty by (cases "typeSizeMap ty") (simp_all add: buildAccessor_def)
  let ?r = "new_typed_array k (index_opt views (acc_bufferView acc)) (or_zero (acc_byteOffset acc))
              (array_length_of (acc_count acc) n)"
  obtain arr where arr: "?r = Inr arr"
    using assms ct k ty n by (cases ?r) (simp_all add: buildAccessor_def)
  have "a_componentType cAcc = ct" "a_array cAcc = arr"
    using assms ct k ty n arr by (auto simp: buildAccessor_def)
  then show ?thesis
    using k new_typed_array_view_as[OF arr] by auto
qed

lemma example_view: "index_opt [[1, 2, 3, 4 :: byte]] (Some 0) = Some [1, 2, 3, 4]"
  by (simp add: index_opt_def nth_opt_def)

text \<open>
  Claim C4, as amended: a bufferView whose range passes the end of its buffer is not
  rejected. View resolution yields the part of the range that lies within the buffer,
  so the view is shorter than the declared \<open>byteLength\<close> by what is missing; it fails
  only when the view names no buffer (a TypeError).
\<close>

theorem buildView_clamps:
  assumes "index_opt buffers (v_buffer v) = Some buffer"
  shows "buildView buffers v =
           Inr (take (or_zero (v_byteLength v)) (drop (or_zero (v_byteOffset v)) buffer))
       \<and> length (take (or_zero (v_byteLength v)) (drop (or_zero (v_byteOffset v)) buffer)) =
           min (or_zero (v_byteLength v)) (length buffer - or_zero (v_byteOffset v))"
  using assms by (simp add: buildView_def slice_def min.commute)

text \<open>
  Witness of C4: a view of ten bytes from offset 2 of a four-byte buffer is the two
  bytes that exist.
\<close>

theorem buildView_clamps_witness:
  "index_opt [[1, 2, 3, 4 :: byte]] (Some 0) = Some [1, 2, 3, 4]
   \<and> buildView [[1, 2, 3, 4]]
        \<lparr>v_buffer = Some 0, v_byteOffset = Some 2, v_byteLength = Some 10\<rparr> = Inr [3, 4]"
  using buildView_clamps[of "[[1, 2, 3, 4]]"
      "\<lparr>v_buffer = Some 0, v_byteOffset = Some 2, v_byteLength = Some 10\<rparr>" "[1, 2, 3, 4]"]
  by (simp add: example_view or_zero_def)

text \<open>
  Counterexample to C4 as stated: the range \<open>[2, 12)\<close> exceeds the four-byte buffer,
  and view resolution returns a slice instead of failing.
\<close>

theorem buildView_counterexample:
  "buildView [[1, 2, 3, 4]] \<lparr>v_buffer = Some 0, v_byteOffset = Some 2, v_byteLength = Some 10\<rparr>
     = Inr [3, 4]"
  by (simp add: buildView_def index_opt_def nth_opt_def or_zero_def slice_def)

text \<open>
  Claim C5, as amended: for an accessor of a supported component type and element type
  over a resolved view, accessor resolution fails with a RangeError when the byte span
  \<open>byteOffset + count * componentCount * width\<close> passes the end of the view (and so
  whenever it exceeds the bufferView's \<open>byteLength\<close>), and also when \<open>byteOffset\<close> is
  not a multiple of the component width, whatever the span; when the span lies within
  the view and \<open>byteOffset\<close> is a multiple of the width, it yields a typed array of
  \<open>count * componentCount\<close> elements.
\<close>

theorem buildAccessor_span:
  assumes "buildView buffers bv = Inr view"
    and "index_opt views (acc_bufferView acc) = Some view"
    and "acc_componentType acc = Some ct" and "compTypeMap ct = Some k"
    and "acc_type acc = Some ty" and "typeSizeMap ty = Some (Components numComp)"
  shows "(or_zero (v_byteLength bv)
            < or_zero (acc_byteOffset acc) + acc_count acc * numComp * BYTES_PER_ELEMENT k
          \<longrightarrow> buildAccessor views acc = Inl RangeError)
       \<and> (length view
            < or_zero (acc_byteOffset acc) + acc_count acc * numComp * BYTES_PER_ELEMENT k
          \<longrightarrow> buildAccessor views acc = Inl RangeError)
       \<and> (or_zero (acc_byteOffset acc) mod BYTES_PER_ELEMENT k \<noteq> 0
          \<longrightarrow> buildAccessor views acc = Inl RangeError)
       \<and> (or_zero (acc_byteOffset acc) + acc_count acc * numComp * BYTES_PER_ELEMENT k
            \<le> length view
          \<and> or_zero (acc_byteOffset acc) mod BYTES_PER_ELEMENT k = 0
          \<longrightarrow> (\<exists>a. buildAccessor views acc = Inr a
                   \<and> array_length (a_array a) = acc_count acc * numComp
                   \<and> a_itemSize a = Components numComp \<and> a_count a = acc_count acc))"
proof -
  let ?span = "or_zero (acc_byteOffset acc) + acc_count acc * numComp * BYTES_PER_ELEMENT k"
  have le: "length view \<le> or_zero (v_byteLength bv)"
    using assms(1) by (rule buildView_length)
  have big: "buildAccessor views acc = Inl RangeError" if "length view < ?span"
    using assms(2-) that
      new_typed_array_range[of view "or_zero (acc_byteOffset acc)" "acc_count acc * numComp" k]
    by (simp add: buildAccessor_def)
  have odd: "buildAccessor views acc = Inl RangeError"
    if "or_zero (acc_byteOffset acc) mod BYTES_PER_ELEMENT k \<noteq> 0"
    using assms(2-) that
      new_typed_array_unaligned[of "or_zero (acc_byteOffset acc)" k view "acc_count acc * numComp"]
    by (simp add: buildAccessor_def)
  have ok: "\<exists>a. buildAccessor views acc = Inr a
                \<and> array_length (a_array a) = acc_count acc * numComp
                \<and> a_itemSize a = Components numComp \<and> a_count a = acc_count acc"
    if "?span \<le> length view" "or_zero (acc_byteOffset acc) mod BYTES_PER_ELEMENT k = 0"
    using assms(2-) that
      new_typed_array_ok[of "or_zero (acc_byteOffset acc)" "acc_count acc * numComp" k view]
    by (auto simp add: buildAccessor_def)
  show ?thesis using le big odd ok by auto
qed

text \<open>
  Witness of C5: over a four-byte view, three 16-bit scalars (six bytes) fail with a
  RangeError, one 16-bit scalar at offset 1 fails with a RangeError, and two 16-bit
  scalars from offset 0 are an array of two elements.
\<close>

theorem buildAccessor_span_witness:
  "buildView [[1, 2, 3, 4]] \<lparr>v_buffer = Some 0, v_byteOffset = None, v_byteLength = Some 4\<rparr>
     = Inr [1, 2, 3, 4]
   \<and> buildAccessor [[1, 2, 3, 4]] (short_accessor_def 0 3) = Inl RangeError
   \<and> buildAccessor [[1, 2, 3, 4]] (short_accessor_def 1 1) = Inl RangeError
   \<and> (\<exists>a. buildAccessor [[1, 2, 3, 4]] (short_accessor_def 0 2) = Inr a
          \<and> array_length (a_array a) = 2)"
proof -
  let ?bv = "\<lparr>v_buffer = Some 0, v_byteOffset = None, v_byteLength = Some 4\<rparr>"
  have v: "buildView [[1, 2, 3, 4]] ?bv = Inr [1, 2, 3, 4]"
    by (simp add: buildView_def index_opt_def nth_opt_def or_zero_def slice_def)
  have i: "index_opt [[1, 2, 3, 4 :: byte]] (acc_bufferView (short_accessor_def m n))
             = Some [1, 2, 3, 4]"
    for m n by (simp add: short_accessor_def_def example_view)
  have c: "acc_componentType (short_accessor_def m n) = Some 5123"
    and t: "acc_type (short_accessor_def m n) = Some ''SCALAR''" for m n
    by (simp_all add: short_accessor_def_def)
  have s: "typeSizeMap ''SCALAR'' = Some (Components 1)"
    by (simp add: typeSizeMap_def)
  show ?thesis
    using buildAccessor_span[OF v i c compTypeMap_cases(2) t s, of 0 3]
      buildAccessor_span[OF v i c compTypeMap_cases(2) t s, of 1 1]
      buildAccessor_span[OF v i c compTypeMap_cases(2) t s, of 0 2]
    by (auto simp add: v short_accessor_def_def or_zero_def)
qed

text \<open>
  Counterexample to C5 as stated: one 16-bit scalar at offset 1 of a four-byte view
  spans three bytes, within the view, and accessor resolution fails all the same.
\<close>

theorem buildAccessor_counterexample:
  "buildAccessor [[1, 2, 3, 4]] (short_accessor_def 1 1) = Inl RangeError"
  by (simp add: buildAccessor_def short_accessor_def_def index_opt_def nth_opt_def
        compTypeMap_def typeSizeMap_def or_zero_def new_typed_array_def)

section \<open>The scene\<close>

lemma map_result_length: "map_result f xs = Inr ys \<Longrightarrow> length ys = length xs"
  by (induction xs arbitrary: ys) (auto split: sum.splits)

lemma buildObjects_length:
  "buildObjects ops c = (ws, Inr nodes) \<Longrightarrow> length nodes = length (d_nodes (c_json c))"
  by (auto simp: buildObjects_def Let_def split: sum.splits prod.splits dest: map_result_length)

lemma map_enumerate:
  "map (\<lambda>(i, x). f i x) (enumerate 0 xs) = map (\<lambda>i. f i (xs ! i)) [0..<length xs]"
  by (rule nth_equalityI) (simp_all add: nth_enumerate_eq)

lemma link_children_eq:
  "link_children defs n =
     concat (map (\<lambda>i. case n_children (defs ! i) of
                         None \<Rightarrow> []
                       | Some cs \<Rightarrow> map (\<lambda>cid. (i, cid)) (filter (\<lambda>cid. cid < n) cs))
                 [0..<length defs])"
  unfolding link_children_def map_enumerate by (simp add: node_links_def)

lemma dangling_objects: "buildObjects exact_ops dangling_ctx = ([], Inr [plain_node])"
  by (simp add: buildObjects_def buildBuffers_def buildAccessors_def buildImages_def
        buildTextures_def map_index_def dangling_ctx_def dangling_document_def
        empty_document_def buildNode_def or_string_def plain_node_def)

lemma dangling_listed: "sceneDef_nodes dangling_document = [0, 9]"
  by (simp add: sceneDef_nodes_def dangling_document_def empty_document_def nth_opt_def
        or_zero_def)

lemma linked_objects:
  "buildObjects exact_ops linked_ctx = ([], Inr [plain_node, plain_node, plain_node])"
  by (simp add: buildObjects_def buildBuffers_def buildAccessors_def buildImages_def
        buildTextures_def map_index_def linked_ctx_def linked_document_def
        empty_document_def buildNode_def or_string_def plain_node_def)

lemma linked_listed: "sceneDef_nodes (c_json linked_ctx) = [2, 7, 0, 2]"
  by (simp add: sceneDef_nodes_def linked_ctx_def linked_document_def empty_document_def
        nth_opt_def or_zero_def)

lemma linked_nodes:
  "length (d_nodes (c_json linked_ctx)) = 3"
  "n_children (d_nodes (c_json linked_ctx) ! 0) = Some [1, 2, 1, 0, 5]"
  "n_children (d_nodes (c_json linked_ctx) ! Suc 0) = None"
  "n_children (d_nodes (c_json linked_ctx) ! 2) = Some [9]"
  by (simp_all add: linked_ctx_def linked_document_def empty_document_def)

lemma upt_3: "[0..<3] = [0, Suc 0, 2]"
  by (simp add: upt_rec)

text \<open>
  Claim C1, as amended: a child index or scene node index that is out of range of the
  node array does not fail the decode. Once the node objects are built,
  \<^verbatim>\<open>_buildScene\<close> returns a scene, and the calls of \<^verbatim>\<open>add\<close> it has made are these,
  in this order: for each node \<open>i\<close> in turn and each entry \<open>cid\<close> of its child list
  that is in range, in the order of the list and as often as it is listed, the call
  \<^verbatim>\<open>nodes[i].add(nodes[cid])\<close>; then for each listed scene node \<open>id\<close> that is in
  range, in the order of the list and as often as it is listed, the call
  \<^verbatim>\<open>scene.add(nodes[id])\<close>. A reference that is out of range makes no call and
  raises nothing. (What \<^verbatim>\<open>add\<close> does with an object it is given twice is the
  library's.)
\<close>

theorem buildScene_skips_dangling:
  assumes "buildObjects ops c = (ws, Inr nodes)"
  shows "\<exists>s. buildScene ops c = (ws, Inr s) \<and> sc_objects s = nodes
           \<and> length nodes = length (d_nodes (c_json c))
           \<and> sc_links s =
               concat (map (\<lambda>i. case n_children (d_nodes (c_json c) ! i) of
                                   None \<Rightarrow> []
                                 | Some cs \<Rightarrow>
                                     map (\<lambda>cid. (i, cid))
                                       (filter (\<lambda>cid. cid < length (d_nodes (c_json c))) cs))
                           [0..<length (d_nodes (c_json c))])
           \<and> sc_children s =
               filter (\<lambda>id. id < length (d_nodes (c_json c))) (sceneDef_nodes (c_json c))"
proof -
  have n: "length nodes = length (d_nodes (c_json c))"
    using assms by (rule buildObjects_length)
  have "buildScene ops c =
          (ws, Inr \<lparr>sc_name = ''GLBScene'', sc_objects = nodes,
                     sc_links = link_children (d_nodes (c_json c)) (length (d_nodes (c_json c))),
                     sc_children = scene_children (c_json c) (length (d_nodes (c_json c)))\<rparr>)"
    unfolding buildScene_def assms n[symmetric] by simp
  then show ?thesis
    unfolding link_children_eq scene_children_def using n by simp
qed

text \<open>
  Witness of C1: three nodes, the first with the children 1, 2, 1, 0 and 5, the third
  with the child 9, and a scene listing the nodes 2, 7, 0 and 2. The scene is built;
  node 0 is given the nodes 1, 2, 1 and 0 in this order, and the scene root the nodes 2,
  0 and 2.
\<close>

theorem buildScene_skips_dangling_witness:
  "buildObjects exact_ops linked_ctx = ([], Inr [plain_node, plain_node, plain_node])
   \<and> (\<exists>s. buildScene exact_ops linked_ctx = ([], Inr s)
          \<and> sc_links s = [(0, 1), (0, 2), (0, 1), (0, 0)]
          \<and> sc_children s = [2, 0, 2])"
proof -
  obtain s where b: "buildScene exact_ops linked_ctx = ([], Inr s)"
    and l: "sc_links s =
               concat (map (\<lambda>i. case n_children (d_nodes (c_json linked_ctx) ! i) of
                                   None \<Rightarrow> []
                                 | Some cs \<Rightarrow>
                                     map (\<lambda>cid. (i, cid))
                                       (filter (\<lambda>cid. cid < length (d_nodes (c_json linked_ctx))) cs))
                           [0..<length (d_nodes (c_json linked_ctx))])"
    and k: "sc_children s =
               filter (\<lambda>id. id < length (d_nodes (c_json linked_ctx)))
                 (sceneDef_nodes (c_json linked_ctx))"
    using buildScene_skips_dangling[OF linked_objects] by blast
  have "sc_links s = [(0, 1), (0, 2), (0, 1), (0, 0)]"
    unfolding l linked_nodes(1) upt_3 by (simp add: linked_nodes)
  moreover have "sc_children s = [2, 0, 2]"
    unfolding k linked_nodes(1) linked_listed by simp
  ultimately show ?thesis
    using linked_objects b by simp
qed

text \<open>
  Counterexample to C1 as stated: an input with a child index (7) and a scene node
  index (9) that are out of range of the one-element node array, for which the decode
  returns a scene, with no call made for either reference.
\<close>

theorem buildScene_counterexample:
  "buildScene exact_ops dangling_ctx
     = ([], Inr \<lparr>sc_name = ''GLBScene'', sc_objects = [plain_node], sc_links = [],
                 sc_children = [0]\<rparr>)"
proof -
  have l: "link_children (d_nodes (c_json dangling_ctx)) (Suc 0) = []"
    by (simp add: link_children_def node_links_def dangling_ctx_def dangling_document_def)
  have s: "scene_children (c_json dangling_ctx) (Suc 0) = [0]"
    by (simp add: scene_children_def dangling_ctx_def dangling_listed)
  show ?thesis
    unfolding buildScene_def dangling_objects by (simp add: l s)
qed

section \<open>Meshes and materials\<close>

lemma optional_attribute_Some:
  "nth_opt accessors k = Some a \<Longrightarrow> optional_attribute accessors (Some k) mk = Inr (Some (mk a))"
  by (simp add: optional_attribute_def)

lemma buildGeometry_color:
  assumes "buildGeometry ops accessors attrs indices pos = Inr g"
    and "COLOR_0 attrs = Some k" and "nth_opt accessors k = Some cAcc"
  shows "g_color g =
           Some \<lparr>ba_array = colorArray ops cAcc, ba_itemSize = a_itemSize cAcc,
                 ba_normalized = False\<rparr>"
proof -
  let ?mkc = "\<lambda>cAcc. \<lparr>ba_array = colorArray ops cAcc, ba_itemSize = a_itemSize cAcc,
                        ba_normalized = False\<rparr>"
  have col: "optional_attribute accessors (COLOR_0 attrs) ?mkc = Inr (Some (?mkc cAcc))"
    unfolding assms(2) using assms(3) by (rule optional_attribute_Some)
  obtain posAcc where p: "nth_opt accessors pos = Some posAcc"
    using assms(1) by (cases "nth_opt accessors pos") (simp_all add: buildGeometry_def)
  let ?n = "optional_attribute accessors (NORMAL attrs)
             (\<lambda>nAcc. \<lparr>ba_array = a_array nAcc, ba_itemSize = a_itemSize nAcc,
                       ba_normalized = a_normalized nAcc\<rparr>)"
  obtain normal where n: "?n = Inr normal"
    using assms(1) p by (cases ?n) (simp_all add: buildGeometry_def)
  let ?i = "optional_attribute accessors indices
             (\<lambda>iAcc. \<lparr>ba_array = a_array iAcc, ba_itemSize = Components 1,
                       ba_normalized = False\<rparr>)"
  obtain index where i: "?i = Inr index"
    using assms(1) p n col by (cases ?i) (simp_all add: buildGeometry_def)
  show ?thesis
    using assms(1) p n col i by (auto simp: buildGeometry_def)
qed

lemma buildPrimitive_color:
  assumes "buildPrimitive ops c meshDef accessors prim idx = Built m"
    and "p_attributes prim = Some attrs" and "COLOR_0 attrs = Some k"
    and "nth_opt accessors k = Some cAcc"
  shows "g_color (me_geometry m) =
           Some \<lparr>ba_array = colorArray ops cAcc, ba_itemSize = a_itemSize cAcc,
                 ba_normalized = False\<rparr>"
proof -
  obtain pos where pos: "POSITION attrs = Some pos"
    using assms(1,2) by (cases "POSITION attrs") (simp_all add: buildPrimitive_def split: if_splits)
  obtain g where g: "buildGeometry ops accessors attrs (p_indices prim) pos = Inr g"
    using assms(1,2) pos
    by (cases "buildGeometry ops accessors attrs (p_indices prim) pos")
       (simp_all add: buildPrimitive_def split: if_splits)
  have "me_geometry m = g"
    using assms(1,2) pos g by (auto simp: buildPrimitive_def split: if_splits)
  then show ?thesis
    using buildGeometry_color[OF g assms(3,4)] by simp
qed

lemma colorArray_cases:
  "\<not> a_normalized cAcc \<Longrightarrow> a_componentType cAcc = 5121 \<Longrightarrow> a_array cAcc = Uint8Array xs \<Longrightarrow>
     colorArray ops cAcc = Float32Array (map (\<lambda>v. Float32_of (num_div ops (of_int v) 255)) xs)"
  "\<not> a_normalized cAcc \<Longrightarrow> a_componentType cAcc = 5123 \<Longrightarrow> a_array cAcc = Uint16Array xs \<Longrightarrow>
     colorArray ops cAcc = Float32Array (map (\<lambda>v. Float32_of (num_div ops (of_int v) 65535)) xs)"
  "a_normalized cAcc \<or> a_componentType cAcc = 5126 \<Longrightarrow> colorArray ops cAcc = a_array cAcc"
  by (auto simp: colorArray_def comp_def)

lemma buildAccessor_ctor:
  assumes "buildAccessor views acc = Inr cAcc"
  shows "a_componentType cAcc = 5121 \<Longrightarrow> \<exists>xs. a_array cAcc = Uint8Array xs"
    and "a_componentType cAcc = 5123 \<Longrightarrow> \<exists>xs. a_array cAcc = Uint16Array xs"
  using buildAccessor_Inr[OF assms] by (auto simp: compTypeMap_cases)

lemma example_accessor:
  "buildAccessor [[255, 128, 0, 255]] (color_accessor_def\<lparr>acc_normalized := True\<rparr>)
     = Inr (color_accessor True)"
  "buildAccessor [[255, 128, 0, 255]] color_accessor_def = Inr (color_accessor False)"
  by (simp_all add: buildAccessor_def color_accessor_def_def color_accessor_def index_opt_def
        nth_opt_def compTypeMap_def typeSizeMap_def or_zero_def new_typed_array_def
        elements_def upt_rec)

text \<open>
  Claim C8, at the input where the code departs from it. A uint8 VEC4 accessor over
  the bytes 255, 128, 0, 255 is used for position, normal and colour. When it is not
  normalized, the colour is attached as the floats stored for 1, 128/255, 0 and 1, as
  the claim says. When it is normalized, the colour array is the accessor's own, but
  the attribute is not attached unchanged: position and normal carry the accessor's
  \<^verbatim>\<open>normalized\<close> flag (lines 112 and 114), and the colour attribute is given the
  literal \<^verbatim>\<open>false\<close> (line 132), so that its bytes are no longer read as fractions
  of 255.
\<close>

theorem normalized_color_flag_dropped:
  "buildAccessor [[255, 128, 0, 255]] (color_accessor_def\<lparr>acc_normalized := True\<rparr>)
     = Inr (color_accessor True)
   \<and> buildPrimitive exact_ops plain_ctx \<lparr>m_name = None, m_primitives = [color_primitive]\<rparr>
        [color_accessor True] color_primitive 0
     = Built (color_mesh True (Uint8Array [255, 128, 0, 255]))
   \<and> ba_normalized (g_position (me_geometry (color_mesh True (Uint8Array [255, 128, 0, 255]))))
   \<and> map_option ba_normalized
        (g_normal (me_geometry (color_mesh True (Uint8Array [255, 128, 0, 255])))) = Some True
   \<and> map_option ba_normalized
        (g_color (me_geometry (color_mesh True (Uint8Array [255, 128, 0, 255])))) = Some False
   \<and> buildAccessor [[255, 128, 0, 255]] color_accessor_def = Inr (color_accessor False)
   \<and> buildPrimitive exact_ops plain_ctx \<lparr>m_name = None, m_primitives = [color_primitive]\<rparr>
        [color_accessor False] color_primitive 0
     = Built (color_mesh False
         (Float32Array [Float32_of 1, Float32_of (128 / 255), Float32_of 0, Float32_of 1]))"
proof -
  have "buildPrimitive exact_ops plain_ctx \<lparr>m_name = None, m_primitives = [color_primitive]\<rparr>
          [color_accessor True] color_primitive 0
        = Built (color_mesh True (Uint8Array [255, 128, 0, 255]))"
    by code_simp
  moreover have "buildPrimitive exact_ops plain_ctx
          \<lparr>m_name = None, m_primitives = [color_primitive]\<rparr>
          [color_accessor False] color_primitive 0
        = Built (color_mesh False
            (Float32Array [Float32_of 1, Float32_of (128 / 255), Float32_of 0, Float32_of 1]))"
    by code_simp
  ultimately show ?thesis
    using example_accessor by (simp add: color_mesh_def)
qed

text \<open>
  Claim C6, at the input where the code departs from it: of four primitives with
  \<^verbatim>\<open>POSITION\<close> and the modes 0, 5, absent and 4, only the one of mode 5 is skipped.
  The primitive of mode 0 (points) has a mode that is present and is not 4, and it is
  built as a triangle mesh.
\<close>

theorem mode_zero_is_built:
  "buildMesh exact_ops plain_ctx
     \<lparr>m_name = None,
      m_primitives = [mode_primitive (Some 0), mode_primitive (Some 5), mode_primitive None,
                      mode_primitive (Some 4)]\<rparr>
     [empty_accessor]
   = ([''Primitive mode not TRIANGLES, skipped''],
      Inr \<lparr>gr_name = ''mesh'',
           gr_children = [plain_mesh ''mesh_0'', plain_mesh ''mesh_2'', plain_mesh ''mesh_3'']\<rparr>)"
  by code_simp

lemma or_low_byte:
  fixes c x :: int
  assumes "0 \<le> c" "c < 256"
  shows "push_bit 8 x OR c = 256 * x + c"
proof -
  have t: "take_bit 8 c = c"
    using assms by (simp add: take_bit_int_eq_self)
  then have "push_bit 8 x OR c = concat_bit 8 c x"
    by (simp add: concat_bit_def or.commute)
  also have "\<dots> = c + 256 * x"
    using t by (simp add: concat_bit_eq push_bit_eq_mult)
  finally show ?thesis by simp
qed

lemma pack_bytes:
  fixes a b c :: int
  assumes "0 \<le> a" "a < 256" "0 \<le> b" "b < 256" "0 \<le> c" "c < 256"
  shows "(signed_take_bit 31 (push_bit 16 (signed_take_bit 31 a))
           OR signed_take_bit 31 (push_bit 8 (signed_take_bit 31 b)))
           OR signed_take_bit 31 c = 65536 * a + 256 * b + c"
proof -
  have sa: "signed_take_bit 31 a = a" and sb: "signed_take_bit 31 b = b"
    and sc: "signed_take_bit 31 c = c"
    using assms by (simp_all add: signed_take_bit_int_eq_self)
  have pa: "signed_take_bit 31 (push_bit 16 a) = push_bit 16 a"
    using assms by (simp add: signed_take_bit_int_eq_self push_bit_eq_mult)
  have pb: "signed_take_bit 31 (push_bit 8 b) = push_bit 8 b"
    using assms by (simp add: signed_take_bit_int_eq_self push_bit_eq_mult)
  have "push_bit 16 a = push_bit 8 (push_bit 8 a)"
    by (simp add: push_bit_push_bit)
  then have "push_bit 16 a OR push_bit 8 b = push_bit 8 (push_bit 8 a OR b)"
    by (simp only: push_bit_or)
  also have "push_bit 8 a OR b = 256 * a + b"
    using assms(3,4) by (rule or_low_byte)
  finally have e1: "push_bit 16 a OR push_bit 8 b = push_bit 8 (256 * a + b)" .
  have "(push_bit 16 a OR push_bit 8 b) OR c = push_bit 8 (256 * a + b) OR c"
    by (simp only: e1)
  also have "\<dots> = 256 * (256 * a + b) + c"
    using assms(5,6) by (rule or_low_byte)
  finally have "(push_bit 16 a OR push_bit 8 b) OR c = 65536 * a + 256 * b + c"
    by simp
  then show ?thesis by (simp only: sa sb sc pa pb)
qed

lemma trunc_unit:
  assumes "0 \<le> x" "x < 256"
  shows "trunc x = \<lfloor>x\<rfloor>" "0 \<le> trunc x" "trunc x < 256"
  using assms by (simp_all add: trunc_def floor_less_iff)

lemma pack_color_sum:
  assumes "0 \<le> channel ops a 0" "channel ops a 0 < 256"
    and "0 \<le> channel ops a 1" "channel ops a 1 < 256"
    and "0 \<le> channel ops a 2" "channel ops a 2 < 256"
  shows "pack_color ops a =
           65536 * \<lfloor>channel ops a 0\<rfloor> + 256 * \<lfloor>channel ops a 1\<rfloor> + \<lfloor>channel ops a 2\<rfloor>"
proof -
  have "pack_color ops a =
          65536 * trunc (channel ops a 0) + 256 * trunc (channel ops a 1) + trunc (channel ops a 2)"
    unfolding pack_color_def Let_def shift_left_def ToInt32_def
    by (rule pack_bytes) (use assms in \<open>simp_all add: trunc_unit\<close>)
  then show ?thesis using assms by (simp add: trunc_unit(1))
qed

lemma channel_cases:
  "nth_opt a i = Some (JNum f) \<Longrightarrow> channel ops a i = num_mul ops f 255"
  "nth_opt a i = None \<or> nth_opt a i = Some JNull \<or> nth_opt a i = Some (JBool False)
     \<Longrightarrow> channel ops a i = num_mul ops 0 255"
  "nth_opt a i = Some (JBool True) \<Longrightarrow> channel ops a i = num_mul ops 1 255"
  by (auto simp: channel_def or0_def)

lemma factor_colors:
  "baseColorFactor p = Some a \<Longrightarrow> mo_color (apply_baseColorFactor ops p mo) = pack_color ops a"
  "emissiveFactor mdef = Some e \<Longrightarrow>
     mo_emissive (apply_material ops c mdef mo) = Some (pack_color ops e)"
  by (simp_all add: apply_baseColorFactor_def apply_material_def Let_def split: option.splits)

lemma floor_half: "\<lfloor>255 / 2 :: rat\<rfloor> = 127"
  by code_simp

text \<open>
  Claim C10, as amended: the colour packed from a \<^verbatim>\<open>baseColorFactor\<close> or an
  \<^verbatim>\<open>emissiveFactor\<close> takes, for each of the first three channels, the product of the
  channel and 255, and when the three products lie in \<open>[0, 256)\<close> it is the 24-bit
  colour of their integer parts: a product is truncated, not rounded, so the factor 0.5
  gives 127. A numeric channel \<open>f\<close> contributes the product of \<open>f\<close> and 255; a
  channel that is missing, \<^verbatim>\<open>null\<close> or \<^verbatim>\<open>false\<close> contributes the product of 0
  and 255; a channel \<^verbatim>\<open>true\<close> counts as 1.
\<close>

theorem pack_color_truncates:
  "(0 \<le> channel ops a 0 \<and> channel ops a 0 < 256 \<and> 0 \<le> channel ops a 1
      \<and> channel ops a 1 < 256 \<and> 0 \<le> channel ops a 2 \<and> channel ops a 2 < 256 \<longrightarrow>
      pack_color ops a =
        65536 * \<lfloor>channel ops a 0\<rfloor> + 256 * \<lfloor>channel ops a 1\<rfloor> + \<lfloor>channel ops a 2\<rfloor>)
   \<and> (nth_opt a i = Some (JNum f) \<longrightarrow> channel ops a i = num_mul ops f 255)
   \<and> (nth_opt a i = None \<or> nth_opt a i = Some JNull \<or> nth_opt a i = Some (JBool False)
        \<longrightarrow> channel ops a i = num_mul ops 0 255)
   \<and> (nth_opt a i = Some (JBool True) \<longrightarrow> channel ops a i = num_mul ops 1 255)
   \<and> (baseColorFactor p = Some a \<longrightarrow> mo_color (apply_baseColorFactor ops p mo) = pack_color ops a)
   \<and> (emissiveFactor mdef = Some a \<longrightarrow>
        mo_emissive (apply_material ops c mdef mo) = Some (pack_color ops a))"
  using pack_color_sum[of ops a] channel_cases[of a i] factor_colors(1)[of p a ops mo]
    factor_colors(2)[of mdef a ops c mo]
  by simp

text \<open>
  Witness of C10: the factor \<open>[0.5, null]\<close>, whose third channel is missing. The
  channels are 127.5, 0 and 0, and the colour is \<open>127 * 65536\<close>.
\<close>

theorem pack_color_truncates_witness:
  "nth_opt [JNum (1 / 2), JNull] 0 = Some (JNum (1 / 2))
   \<and> channel exact_ops [JNum (1 / 2), JNull] 0 = 255 / 2
   \<and> nth_opt [JNum (1 / 2), JNull] 1 = Some JNull
   \<and> channel exact_ops [JNum (1 / 2), JNull] 1 = 0
   \<and> nth_opt [JNum (1 / 2), JNull] 2 = None
   \<and> channel exact_ops [JNum (1 / 2), JNull] 2 = 0
   \<and> pack_color exact_ops [JNum (1 / 2), JNull] = 127 * 65536"
proof -
  let ?a = "[JNum (1 / 2), JNull]"
  have n: "nth_opt ?a 0 = Some (JNum (1 / 2))" "nth_opt ?a (Suc 0) = Some JNull"
    "nth_opt ?a 2 = None"
    by (simp_all add: nth_opt_def)
  have m: "num_mul exact_ops x 255 = x * 255" for x
    by (simp add: exact_ops_def)
  have c0: "channel exact_ops ?a 0 = 255 / 2"
    using pack_color_truncates[of exact_ops ?a 0 "1 / 2"] n(1) by (simp add: m)
  have c1: "channel exact_ops ?a (Suc 0) = 0"
    using pack_color_truncates[of exact_ops ?a "Suc 0"] n(2) by (simp add: m)
  have c2: "channel exact_ops ?a 2 = 0"
    using pack_color_truncates[of exact_ops ?a 2] n(3) by (simp add: m)
  have "pack_color exact_ops ?a = 127 * 65536"
    using pack_color_truncates[of exact_ops ?a] by (simp add: c0 c1 c2 floor_half)
  then show ?thesis
    using n c0 c1 c2 by simp
qed

text \<open>
  Counterexample to C10 as stated: the channel \<^verbatim>\<open>true\<close> is not numeric, and it
  contributes 255, not 0.
\<close>

theorem true_channel_counterexample:
  "channel exact_ops [JBool True, JNum 0, JNum 0] 0 = 255
   \<and> pack_color exact_ops [JBool True, JNum 0, JNum 0] = 0xFF0000"
  by code_simp

lemma pack_red:
  assumes "num_mul ops 1 255 = 255" "num_mul ops 0 255 = 0"
  shows "pack_color ops [JNum 1, JNum 0, JNum 0, JNum (1 / 2)] = 0xFF0000"
  using assms
  by (simp add: pack_color_def channel_def nth_opt_def or0_def shift_left_def ToInt32_def
        trunc_def)

lemma apply_material_opacity:
  "mo_opacity (apply_material ops c mdef mo) =
     (let o1 = mo_opacity (case pbrMetallicRoughness mdef of
                             None \<Rightarrow> mo
                           | Some p \<Rightarrow> apply_pbr ops c p mo)
      in if alphaMode mdef = Some ''BLEND'' \<and> \<not> not_null o1 then Some (JNum (9 / 10)) else o1)"
  by (simp add: apply_material_def Let_def split: option.splits)

lemma apply_pbr_factor:
  assumes "baseColorFactor p = Some [JNum 1, JNum 0, JNum 0, JNum (1 / 2)]"
    and "num_mul ops 1 255 = 255" "num_mul ops 0 255 = 0"
  shows "baseColor_texture c p = None \<Longrightarrow> mo_color (apply_pbr ops c p mo) = 0xFF0000"
    and "baseColor_texture c p = Some tex \<Longrightarrow>
           mo_color (apply_pbr ops c p mo) = 0xFFFFFF \<and> mo_map (apply_pbr ops c p mo) = Some tex"
    and "mo_transparent (apply_pbr ops c p mo)"
    and "mo_opacity (apply_pbr ops c p mo) = Some (JNum (1 / 2))"
  using assms pack_red[of ops]
  by (simp_all add: apply_pbr_def apply_baseColorFactor_def apply_baseColorTexture_def
        nth_opt_def Let_def split: option.splits)

lemma apply_material_keeps:
  "mo_color (apply_material ops c mdef mo) =
     mo_color (case pbrMetallicRoughness mdef of None \<Rightarrow> mo | Some p \<Rightarrow> apply_pbr ops c p mo)"
  "mo_map (apply_material ops c mdef mo) =
     mo_map (case pbrMetallicRoughness mdef of None \<Rightarrow> mo | Some p \<Rightarrow> apply_pbr ops c p mo)"
  "mo_transparent (case pbrMetallicRoughness mdef of None \<Rightarrow> mo | Some p \<Rightarrow> apply_pbr ops c p mo)
     \<Longrightarrow> mo_transparent (apply_material ops c mdef mo)"
  "alphaMode mdef = Some ''BLEND'' \<Longrightarrow> mo_transparent (apply_material ops c mdef mo)"
  by (simp_all add: apply_material_def Let_def split: option.splits)

lemma resolve_material_found:
  assumes "index_opt (d_materials (c_json c)) (p_material prim) = Some mdef"
  shows "mo_color (resolve_material ops c prim u)
           = mo_color (apply_material ops c mdef default_matOptions)"
    and "mo_map (resolve_material ops c prim u)
           = mo_map (apply_material ops c mdef default_matOptions)"
    and "mo_transparent (resolve_material ops c prim u)
           = mo_transparent (apply_material ops c mdef default_matOptions)"
    and "mo_opacity (resolve_material ops c prim u)
           = mo_opacity (apply_material ops c mdef default_matOptions)"
  using assms by (simp_all add: resolve_material_def Let_def)

text \<open>
  Claim C7, as amended: for a primitive whose material has the \<^verbatim>\<open>baseColorFactor\<close>
  \<open>[1, 0, 0, 0.5]\<close>, the material options are transparent and have opacity 0.5,
  whatever the \<^verbatim>\<open>alphaMode\<close>, \<^verbatim>\<open>BLEND\<close> included; their colour is \<open>0xFF0000\<close>
  when no base colour texture resolves, and when one resolves the colour is white
  (\<open>0xFFFFFF\<close>) and the texture is the map. For any material of \<^verbatim>\<open>alphaMode\<close>
  \<^verbatim>\<open>BLEND\<close> the options are transparent, and the opacity is the one the
  \<^verbatim>\<open>pbrMetallicRoughness\<close> block has left when that is not null, and 0.9 otherwise.
  (The products of 1 and of 0 with 255 are taken to be 255 and 0.)
\<close>

theorem red_half_opaque:
  assumes "index_opt (d_materials (c_json c)) (p_material prim) = Some mdef"
    and "pbrMetallicRoughness mdef = Some p"
    and "baseColorFactor p = Some [JNum 1, JNum 0, JNum 0, JNum (1 / 2)]"
    and "num_mul ops 1 255 = 255" and "num_mul ops 0 255 = 0"
  shows "(baseColor_texture c p = None \<longrightarrow> mo_color (resolve_material ops c prim u) = 0xFF0000)
       \<and> (baseColor_texture c p = Some tex \<longrightarrow>
            mo_color (resolve_material ops c prim u) = 0xFFFFFF
            \<and> mo_map (resolve_material ops c prim u) = Some tex)
       \<and> mo_transparent (resolve_material ops c prim u)
       \<and> mo_opacity (resolve_material ops c prim u) = Some (JNum (1 / 2))
       \<and> (alphaMode m2 = Some ''BLEND'' \<longrightarrow>
            mo_transparent (apply_material ops c m2 mo)
            \<and> mo_opacity (apply_material ops c m2 mo) =
                (if not_null (mo_opacity (case pbrMetallicRoughness m2 of
                                            None \<Rightarrow> mo
                                          | Some p2 \<Rightarrow> apply_pbr ops c p2 mo))
                 then mo_opacity (case pbrMetallicRoughness m2 of
                                    None \<Rightarrow> mo
                                  | Some p2 \<Rightarrow> apply_pbr ops c p2 mo)
                 else Some (JNum (9 / 10))))"
proof -
  note f = apply_pbr_factor[OF assms(3-5)]
  note r = resolve_material_found[OF assms(1)]
  have "baseColor_texture c p = None \<Longrightarrow> mo_color (resolve_material ops c prim u) = 0xFF0000"
    unfolding r apply_material_keeps(1) assms(2) using f(1) by simp
  moreover have "baseColor_texture c p = Some tex \<Longrightarrow>
            mo_color (resolve_material ops c prim u) = 0xFFFFFF
            \<and> mo_map (resolve_material ops c prim u) = Some tex"
    unfolding r apply_material_keeps(1,2) assms(2) using f(2) by simp
  moreover have "mo_transparent (resolve_material ops c prim u)"
    unfolding r using f(3) assms(2) by (simp add: apply_material_keeps(3))
  moreover have "mo_opacity (resolve_material ops c prim u) = Some (JNum (1 / 2))"
    unfolding r using f(4) assms(2) by (simp add: apply_material_opacity)
  moreover have "alphaMode m2 = Some ''BLEND'' \<Longrightarrow>
            mo_transparent (apply_material ops c m2 mo)
            \<and> mo_opacity (apply_material ops c m2 mo) =
                (if not_null (mo_opacity (case pbrMetallicRoughness m2 of
                                            None \<Rightarrow> mo
                                          | Some p2 \<Rightarrow> apply_pbr ops c p2 mo))
                 then mo_opacity (case pbrMetallicRoughness m2 of
                                    None \<Rightarrow> mo
                                  | Some p2 \<Rightarrow> apply_pbr ops c p2 mo)
                 else Some (JNum (9 / 10)))"
    by (simp add: apply_material_opacity apply_material_keeps(4) Let_def)
  ultimately show ?thesis by blast
qed

text \<open>
  Witness of C7: the material with that factor and \<^verbatim>\<open>alphaMode\<close> \<^verbatim>\<open>BLEND\<close>. Without
  a texture it is red, transparent and of opacity 0.5; with a base colour texture that
  resolves it is white, with that texture as its map, transparent and of opacity 0.5.
  The same material without its \<^verbatim>\<open>pbrMetallicRoughness\<close> block is transparent and of
  opacity 0.9.
\<close>

theorem red_half_opaque_witness:
  "mo_color (resolve_material exact_ops (material_ctx (red_material (Some ''BLEND'') None))
              material_primitive False) = 0xFF0000
   \<and> mo_transparent (resolve_material exact_ops
        (material_ctx (red_material (Some ''BLEND'') None)) material_primitive False)
   \<and> mo_opacity (resolve_material exact_ops
        (material_ctx (red_material (Some ''BLEND'') None)) material_primitive False)
       = Some (JNum (1 / 2))
   \<and> mo_color (resolve_material exact_ops
        (material_ctx (red_material (Some ''BLEND'') (Some \<lparr>ti_index = Some 0\<rparr>)))
        material_primitive False) = 0xFFFFFF
   \<and> mo_map (resolve_material exact_ops
        (material_ctx (red_material (Some ''BLEND'') (Some \<lparr>ti_index = Some 0\<rparr>)))
        material_primitive False) = Some example_texture
   \<and> mo_transparent (resolve_material exact_ops
        (material_ctx (red_material (Some ''BLEND'') (Some \<lparr>ti_index = Some 0\<rparr>)))
        material_primitive False)
   \<and> mo_opacity (resolve_material exact_ops
        (material_ctx (red_material (Some ''BLEND'') (Some \<lparr>ti_index = Some 0\<rparr>)))
        material_primitive False) = Some (JNum (1 / 2))
   \<and> alphaMode ((red_material (Some ''BLEND'') None)\<lparr>pbrMetallicRoughness := None\<rparr>)
       = Some ''BLEND''
   \<and> mo_transparent (apply_material exact_ops
        (material_ctx (red_material (Some ''BLEND'') None))
        ((red_material (Some ''BLEND'') None)\<lparr>pbrMetallicRoughness := None\<rparr>)
        default_matOptions)
   \<and> mo_opacity (apply_material exact_ops (material_ctx (red_material (Some ''BLEND'') None))
        ((red_material (Some ''BLEND'') None)\<lparr>pbrMetallicRoughness := None\<rparr>)
        default_matOptions) = Some (JNum (9 / 10))"
proof -
  have 1: "index_opt (d_materials (c_json (material_ctx (red_material m ti))))
             (p_material material_primitive) = Some (red_material m ti)" for m ti
    by (simp add: material_ctx_def material_primitive_def index_opt_def nth_opt_def)
  have 2: "pbrMetallicRoughness (red_material m ti) =
             Some \<lparr>baseColorFactor = Some [JNum 1, JNum 0, JNum 0, JNum (1 / 2)],
                   baseColorTexture = ti, metallicFactor = None, roughnessFactor = None\<rparr>"
    for m ti by (simp add: red_material_def)
  have 3: "baseColorFactor \<lparr>baseColorFactor = Some [JNum 1, JNum 0, JNum 0, JNum (1 / 2)],
                   baseColorTexture = ti, metallicFactor = None, roughnessFactor = None\<rparr>
             = Some [JNum 1, JNum 0, JNum 0, JNum (1 / 2)]" for ti
    by simp
  have 4: "num_mul exact_ops 1 255 = 255" and 5: "num_mul exact_ops 0 255 = 0"
    by (simp_all add: exact_ops_def)
  have n: "baseColor_texture (material_ctx mdef)
             \<lparr>baseColorFactor = Some [JNum 1, JNum 0, JNum 0, JNum (1 / 2)],
              baseColorTexture = None, metallicFactor = None, roughnessFactor = None\<rparr> = None"
    for mdef by (simp add: baseColor_texture_def)
  have t: "baseColor_texture (material_ctx mdef)
             \<lparr>baseColorFactor = Some [JNum 1, JNum 0, JNum 0, JNum (1 / 2)],
              baseColorTexture = Some \<lparr>ti_index = Some 0\<rparr>, metallicFactor = None,
              roughnessFactor = None\<rparr> = Some example_texture"
    for mdef by (simp add: baseColor_texture_def material_ctx_def nth_opt_def)
  show ?thesis
    using red_half_opaque[OF 1 2 3 4 5, of "Some ''BLEND''" None False example_texture
        "(red_material (Some ''BLEND'') None)\<lparr>pbrMetallicRoughness := None\<rparr>"
        default_matOptions]
      red_half_opaque[OF 1 2 3 4 5, of "Some ''BLEND''" "Some \<lparr>ti_index = Some 0\<rparr>" False
        example_texture]
    by (simp add: n t red_material_def default_matOptions_def)
qed

text \<open>
  Counterexample to C7 as stated: the same material with a base colour texture that
  resolves has the colour white, not red.
\<close>

theorem textured_counterexample:
  "mo_color (resolve_material exact_ops
      (material_ctx (red_material (Some ''BLEND'') (Some \<lparr>ti_index = Some 0\<rparr>)))
      material_primitive False) = 0xFFFFFF"
  by code_simp

section \<open>The container\<close>

lemma unat_byte: "unat (word_of_nat k :: 8 word) = k mod 256"
  by (simp add: unat_of_nat)

lemma split_bytes:
  fixes n :: nat
  assumes "n < 2 ^ 32"
  shows "n mod 256 + 256 * (n div 256 mod 256 + 256 * (n div 256 div 256 mod 256
           + 256 * (n div 256 div 256 div 256 mod 256))) = n"
proof -
  define a where "a = n div 256"
  define b where "b = a div 256"
  define c where "c = b div 256"
  have "a < 16777216" using assms unfolding a_def by (intro less_mult_imp_div_less) simp
  then have "b < 65536" unfolding b_def by (intro less_mult_imp_div_less) simp
  then have "c < 256" unfolding c_def by (intro less_mult_imp_div_less) simp
  then have c: "c mod 256 = c" by simp
  have n: "n mod 256 + 256 * a = n" unfolding a_def by (rule mod_mult_div_eq)
  have a: "a mod 256 + 256 * b = a" unfolding b_def by (rule mod_mult_div_eq)
  have b: "b mod 256 + 256 * c = b" unfolding c_def by (rule mod_mult_div_eq)
  have "n mod 256 + 256 * (a mod 256 + 256 * (b mod 256 + 256 * (c mod 256))) = n"
    unfolding c b a n ..
  then show ?thesis unfolding a_def b_def c_def .
qed

lemma le_nat_le32: "n < 2 ^ 32 \<Longrightarrow> le_nat (le32 n) = n"
  using split_bytes[of n] unfolding le32_def le_nat.simps unat_byte by simp

lemma length_le32 [simp]: "length (le32 n) = 4"
  by (simp add: le32_def)

lemma getUint32_at:
  assumes "n < 2 ^ 32"
  shows "getUint32 (pre @ le32 n @ post) (length pre) = Inr n"
  using le_nat_le32[OF assms] by (simp add: getUint32_def)

lemma getUint32_past: "length buf < offset + 4 \<Longrightarrow> getUint32 buf offset = Inl RangeError"
  by (simp add: getUint32_def)

lemma length_encode_chunk: "length (encode_chunk ch) = 8 + length (snd ch)"
  by (simp add: encode_chunk_def)

lemma chunk_header:
  assumes "fst ch < 2 ^ 32" "length (snd ch) < 2 ^ 32"
  shows "getUint32 (pre @ encode_chunk ch @ post) (length pre) = Inr (length (snd ch))"
    and "getUint32 (pre @ encode_chunk ch @ post) (length pre + 4) = Inr (fst ch)"
    and "slice (pre @ encode_chunk ch @ post) (length pre + 8) (length pre + 8 + length (snd ch))
           = snd ch"
proof -
  show "getUint32 (pre @ encode_chunk ch @ post) (length pre) = Inr (length (snd ch))"
    using getUint32_at[OF assms(2), of pre "le32 (fst ch) @ snd ch @ post"]
    by (simp add: encode_chunk_def)
  show "getUint32 (pre @ encode_chunk ch @ post) (length pre + 4) = Inr (fst ch)"
    using getUint32_at[OF assms(1), of "pre @ le32 (length (snd ch))" "snd ch @ post"]
    by (simp add: encode_chunk_def)
  have "pre @ encode_chunk ch @ post = (pre @ le32 (length (snd ch)) @ le32 (fst ch)) @ snd ch @ post"
    by (simp add: encode_chunk_def)
  moreover have "length (pre @ le32 (length (snd ch)) @ le32 (fst ch)) = length pre + 8"
    by simp
  ultimately show "slice (pre @ encode_chunk ch @ post) (length pre + 8)
                     (length pre + 8 + length (snd ch)) = snd ch"
    by (simp add: slice_def)
qed

lemma read_chunk_step:
  assumes "fst ch < 2 ^ 32" "length (snd ch) < 2 ^ 32" "length pre < len"
  shows "read_chunks jp (pre @ encode_chunk ch @ post) len (length pre) json bin =
           (if fst ch = 0x4E4F534A then
              (case jp (snd ch) of
                 Throws \<Rightarrow> Inl SyntaxError
               | Falsy \<Rightarrow> read_chunks jp (pre @ encode_chunk ch @ post) len
                            (length pre + 8 + length (snd ch)) None bin
               | Parsed d \<Rightarrow> read_chunks jp (pre @ encode_chunk ch @ post) len
                            (length pre + 8 + length (snd ch)) (Some d) bin)
            else if fst ch = 0x004E4942 then
              read_chunks jp (pre @ encode_chunk ch @ post) len
                (length pre + 8 + length (snd ch)) json (Some (snd ch))
            else read_chunks jp (pre @ encode_chunk ch @ post) len
                   (length pre + 8 + length (snd ch)) json bin)"
  by (subst read_chunks.simps)
     (simp only: chunk_header[OF assms(1,2)] assms(3) if_True sum.case)

lemma read_chunks_encoded:
  assumes "well_formed cs" "length pre + length (encode_chunks cs) \<le> len"
  shows "read_chunks jp (pre @ encode_chunks cs @ post) len (length pre) json bin =
           (case chunk_fold jp cs json bin of
              Inl e \<Rightarrow> Inl e
            | Inr (json', bin') \<Rightarrow>
                read_chunks jp (pre @ encode_chunks cs @ post) len
                  (length pre + length (encode_chunks cs)) json' bin')"
  using assms
proof (induction cs arbitrary: pre json bin)
  case Nil
  then show ?case by (simp add: encode_chunks_def)
next
  case (Cons ch cs)
  let ?buf = "pre @ encode_chunks (ch # cs) @ post"
  have wf: "fst ch < 2 ^ 32" "length (snd ch) < 2 ^ 32" "well_formed cs"
    using Cons.prems(1) by (simp_all add: well_formed_def)
  have buf: "?buf = pre @ encode_chunk ch @ (encode_chunks cs @ post)"
    and buf': "(pre @ encode_chunk ch) @ encode_chunks cs @ post = ?buf"
    by (simp_all add: encode_chunks_def)
  have len: "length (encode_chunks (ch # cs)) = 8 + length (snd ch) + length (encode_chunks cs)"
    by (simp add: encode_chunks_def length_encode_chunk)
  have lt: "length pre < len"
    using Cons.prems(2) by (simp add: len)
  have off: "length (pre @ encode_chunk ch) = length pre + 8 + length (snd ch)"
    by (simp add: length_encode_chunk)
  have le: "length (pre @ encode_chunk ch) + length (encode_chunks cs) \<le> len"
    using Cons.prems(2) by (simp add: len length_encode_chunk)
  have fin: "length (pre @ encode_chunk ch) + length (encode_chunks cs) =
               length pre + length (encode_chunks (ch # cs))"
    by (simp add: len length_encode_chunk)
  have IH: "read_chunks jp ?buf len (length pre + 8 + length (snd ch)) j b =
            (case chunk_fold jp cs j b of
               Inl e \<Rightarrow> Inl e
             | Inr (json', bin') \<Rightarrow>
                 read_chunks jp ?buf len (length pre + length (encode_chunks (ch # cs))) json' bin')"
    for j b
    using Cons.IH[OF wf(3) le, of j b, unfolded fin, unfolded off buf'] .
  have step: "read_chunks jp ?buf len (length pre) json bin =
           (if fst ch = 0x4E4F534A then
              (case jp (snd ch) of
                 Throws \<Rightarrow> Inl SyntaxError
               | Falsy \<Rightarrow> read_chunks jp ?buf len (length pre + 8 + length (snd ch)) None bin
               | Parsed d \<Rightarrow> read_chunks jp ?buf len (length pre + 8 + length (snd ch)) (Some d) bin)
            else if fst ch = 0x004E4942 then
              read_chunks jp ?buf len (length pre + 8 + length (snd ch)) json (Some (snd ch))
            else read_chunks jp ?buf len (length pre + 8 + length (snd ch)) json bin)"
    using read_chunk_step[OF wf(1,2) lt, of jp "encode_chunks cs @ post" json bin]
    unfolding buf[symmetric] .
  show ?case
    unfolding step IH by (cases "jp (snd ch)") simp_all
qed

lemma read_chunks_done:
  "len \<le> offset \<Longrightarrow> read_chunks jp buf len offset json bin = Inr (json, bin)"
  by (subst read_chunks.simps) simp

lemma read_chunks_past:
  "offset < len \<Longrightarrow> length buf < offset + 4 \<Longrightarrow>
   read_chunks jp buf len offset json bin = Inl RangeError"
  by (subst read_chunks.simps) (simp add: getUint32_past)

lemma read_chunks_header_past:
  assumes "offset < len" "length buf < offset + 8"
  shows "read_chunks jp buf len offset json bin = Inl RangeError"
proof (cases "length buf < offset + 4")
  case True
  then show ?thesis using assms(1) by (rule read_chunks_past[rotated])
next
  case False
  then have 1: "getUint32 buf offset = Inr (le_nat (take 4 (drop offset buf)))"
    by (simp add: getUint32_def)
  have 2: "getUint32 buf (offset + 4) = Inl RangeError"
    using assms(2) by (simp add: getUint32_def)
  show ?thesis
    by (subst read_chunks.simps) (simp add: assms(1) 1 2)
qed

lemma getUint32_error: "getUint32 buf offset = Inl e \<Longrightarrow> e = RangeError"
  by (simp add: getUint32_def split: if_splits)

lemma read_chunks_errors:
  "read_chunks jp buf len offset json bin = Inl e \<Longrightarrow> e = RangeError \<or> e = SyntaxError"
proof (induction jp buf len offset json bin rule: read_chunks.induct)
  case (1 jp arrayBuffer len offset json bin)
  show ?case
  proof (cases "offset < len")
    case False
    then show ?thesis
      using "1.prems" by (subst (asm) read_chunks.simps) simp
  next
    case lt: True
    show ?thesis
    proof (cases "getUint32 arrayBuffer offset")
      case (Inl a)
      then show ?thesis
        using "1.prems" lt getUint32_error[of arrayBuffer offset a]
        by (subst (asm) read_chunks.simps) simp
    next
      case l: (Inr chunkLen)
      show ?thesis
      proof (cases "getUint32 arrayBuffer (offset + 4)")
        case (Inl a)
        then show ?thesis
          using "1.prems" lt l getUint32_error[of arrayBuffer "offset + 4" a]
          by (subst (asm) read_chunks.simps) simp
      next
        case t: (Inr chunkType)
        show ?thesis
          using "1.prems" "1.IH"[OF lt l t]
          by (subst (asm) read_chunks.simps)
             (auto simp: lt l t split: if_splits json_parsed.splits)
      qed
    qed
  qed
qed

lemma parse_header:
  assumes "getUint32 buf 0 = Inr 0x46546C67" "getUint32 buf 4 = Inr 2" "getUint32 buf 8 = Inr D"
  shows "parse ops jp buf url =
           (case read_chunks jp buf D 12 None None of
              Inl e \<Rightarrow> (if D \<noteq> length buf then [''GLB length mismatch''] else [], Inl e)
            | Inr (json, bin) \<Rightarrow>
                (case build_result ops url json bin of
                   (ws, r) \<Rightarrow>
                     ((if D \<noteq> length buf then [''GLB length mismatch''] else []) @ ws, r)))"
  unfolding parse_def assms by (simp add: Let_def)

lemma glb_header:
  assumes "D < 2 ^ 32"
  shows "getUint32 (glb D body) 0 = Inr 0x46546C67"
    and "getUint32 (glb D body) 4 = Inr 2"
    and "getUint32 (glb D body) 8 = Inr D"
    and "length (glb D body) = 12 + length body"
proof -
  show "getUint32 (glb D body) 0 = Inr 0x46546C67"
    using getUint32_at[of "0x46546C67" "[]" "le32 2 @ le32 D @ body"] by (simp add: glb_def)
  show "getUint32 (glb D body) 4 = Inr 2"
    using getUint32_at[of 2 "le32 0x46546C67" "le32 D @ body"] by (simp add: glb_def)
  show "getUint32 (glb D body) 8 = Inr D"
    using getUint32_at[OF assms, of "le32 0x46546C67 @ le32 2" body] by (simp add: glb_def)
  show "length (glb D body) = 12 + length body"
    by (simp add: glb_def)
qed

lemma parse_glb:
  assumes "D < 2 ^ 32"
  shows "parse ops jp (glb D body) url =
           (case read_chunks jp (glb D body) D 12 None None of
              Inl e \<Rightarrow> (if D \<noteq> 12 + length body then [''GLB length mismatch''] else [], Inl e)
            | Inr (json, bin) \<Rightarrow>
                (case build_result ops url json bin of
                   (ws, r) \<Rightarrow>
                     ((if D \<noteq> 12 + length body then [''GLB length mismatch''] else []) @ ws, r)))"
  unfolding parse_def glb_header[OF assms] by (simp add: Let_def)

lemma read_glb:
  assumes "well_formed cs" "12 + length (encode_chunks cs) \<le> len"
  shows "read_chunks jp (glb D (encode_chunks cs @ post)) len 12 None None =
           (case chunk_fold jp cs None None of
              Inl e \<Rightarrow> Inl e
            | Inr (json, bin) \<Rightarrow>
                read_chunks jp (glb D (encode_chunks cs @ post)) len
                  (12 + length (encode_chunks cs)) json bin)"
proof -
  let ?pre = "le32 0x46546C67 @ le32 2 @ le32 D"
  have g: "glb D (encode_chunks cs @ post) = ?pre @ encode_chunks cs @ post"
    by (simp add: glb_def)
  have l: "length ?pre = 12" by simp
  show ?thesis
    using read_chunks_encoded[OF assms(1), of ?pre len jp post None None] assms(2)
    unfolding g l by simp
qed

lemma read_glb_exact:
  assumes "well_formed cs"
  shows "read_chunks jp (glb D (encode_chunks cs @ post)) (12 + length (encode_chunks cs)) 12
           None None = chunk_fold jp cs None None"
  using read_glb[OF assms, of "12 + length (encode_chunks cs)" jp D post]
  by (auto simp: read_chunks_done split: sum.splits)

lemma last_of_Cons:
  "last_of ty (ch # cs) =
     (case last_of ty cs of
        None \<Rightarrow> if fst ch = ty then Some (snd ch) else None
      | Some x \<Rightarrow> Some x)"
  by (simp add: last_of_def split: list.splits)

lemma chunk_fold_last:
  assumes "no_throw jp cs"
  shows "chunk_fold jp cs json bin =
           Inr (case last_of 0x4E4F534A cs of None \<Rightarrow> json | Some t \<Rightarrow> json_of (jp t),
                case last_of 0x004E4942 cs of None \<Rightarrow> bin | Some d \<Rightarrow> Some d)"
  using assms
proof (induction cs arbitrary: json bin)
  case Nil
  then show ?case by (simp add: last_of_def)
next
  case (Cons ch cs)
  have nt: "no_throw jp cs" and hd: "fst ch = 0x4E4F534A \<Longrightarrow> jp (snd ch) \<noteq> Throws"
    using Cons.prems by (simp_all add: no_throw_def)
  show ?case
  proof (cases "fst ch = 0x4E4F534A")
    case True
    then show ?thesis
      using hd Cons.IH[OF nt]
      by (cases "jp (snd ch)") (simp_all add: last_of_Cons split: option.splits)
  next
    case False
    then show ?thesis
      using Cons.IH[OF nt] by (simp add: last_of_Cons split: option.splits)
  qed
qed

lemma parse_warns:
  assumes "getUint32 buf 0 = Inr 0x46546C67" "getUint32 buf 4 = Inr 2" "getUint32 buf 8 = Inr D"
    and "D \<noteq> length buf"
  shows "parse ops jp buf url =
           (case read_chunks jp buf D 12 None None of
              Inl e \<Rightarrow> ([''GLB length mismatch''], Inl e)
            | Inr (json, bin) \<Rightarrow>
                (case build_result ops url json bin of
                   (ws, r) \<Rightarrow> (''GLB length mismatch'' # ws, r)))"
  unfolding parse_header[OF assms(1-3)] using assms(4)
  by (simp split: sum.splits prod.splits)

lemma chunk_fold_throws:
  assumes "\<not> no_throw jp cs"
  shows "chunk_fold jp cs json bin = Inl SyntaxError"
  using assms
proof (induction cs arbitrary: json bin)
  case Nil
  then show ?case by (simp add: no_throw_def)
next
  case (Cons ch cs)
  show ?case
  proof (cases "fst ch = 0x4E4F534A \<and> jp (snd ch) = Throws")
    case True
    then show ?thesis by simp
  next
    case False
    then have "\<not> no_throw jp cs"
      using Cons.prems by (auto simp: no_throw_def)
    then have "chunk_fold jp cs j b = Inl SyntaxError" for j b
      by (rule Cons.IH)
    then show ?thesis
      by (cases "jp (snd ch)") simp_all
  qed
qed

lemma parse_encoded:
  assumes "well_formed cs" and "L = 12 + length (encode_chunks cs)" and "L < 2 ^ 32"
  shows "parse ops jp (glb L (encode_chunks cs)) url =
           (case chunk_fold jp cs None None of
              Inl e \<Rightarrow> ([], Inl e)
            | Inr (json, bin) \<Rightarrow> build_result ops url json bin)"
proof -
  have r: "read_chunks jp (glb L (encode_chunks cs)) L 12 None None = chunk_fold jp cs None None"
    using read_glb_exact[OF assms(1), of jp L "[]"] assms(2) by simp
  have w: "\<not> L \<noteq> 12 + length (encode_chunks cs)"
    using assms(2) by simp
  show ?thesis
    unfolding parse_glb[OF assms(3)] r if_not_P[OF w]
    by (simp split: sum.splits prod.splits)
qed

lemma parse_trailing:
  assumes "well_formed cs" and "L = 12 + length (encode_chunks cs)" and "L < 2 ^ 32"
    and "extra \<noteq> []"
  shows "parse ops jp (glb L (encode_chunks cs @ extra)) url =
           (case parse ops jp (glb L (encode_chunks cs)) url of
              (ws, r) \<Rightarrow> (''GLB length mismatch'' # ws, r))"
proof -
  have r: "read_chunks jp (glb L (encode_chunks cs @ extra)) L 12 None None =
             chunk_fold jp cs None None"
    using read_glb_exact[OF assms(1), of jp L extra] assms(2) by simp
  have w: "L \<noteq> 12 + length (encode_chunks cs @ extra)"
    using assms(2,4) by simp
  have lhs: "parse ops jp (glb L (encode_chunks cs @ extra)) url =
               (case chunk_fold jp cs None None of
                  Inl e \<Rightarrow> ([''GLB length mismatch''], Inl e)
                | Inr (json, bin) \<Rightarrow>
                    (case build_result ops url json bin of
                       (ws, r) \<Rightarrow> (''GLB length mismatch'' # ws, r)))"
    unfolding parse_glb[OF assms(3)] r if_P[OF w]
    by (simp split: sum.splits prod.splits)
  show ?thesis
    unfolding lhs parse_encoded[OF assms(1-3)]
    by (simp split: sum.splits prod.splits)
qed

lemma parse_declared_long:
  assumes "well_formed cs" and "12 + length (encode_chunks cs) < D" and "D < 2 ^ 32"
    and "no_throw jp cs"
  shows "parse ops jp (glb D (encode_chunks cs)) url = ([''GLB length mismatch''], Inl RangeError)"
proof -
  obtain j b where f: "chunk_fold jp cs None None = Inr (j, b)"
    using chunk_fold_last[OF assms(4), of None None] by simp
  have le: "12 + length (encode_chunks cs) \<le> D"
    using assms(2) by simp
  have "read_chunks jp (glb D (encode_chunks cs @ [])) D 12 None None =
          read_chunks jp (glb D (encode_chunks cs @ [])) D (12 + length (encode_chunks cs)) j b"
    using read_glb[OF assms(1) le, of jp D "[]"] f by simp
  also have "\<dots> = Inl RangeError"
    using assms(2,3) by (intro read_chunks_past) (simp_all add: glb_header(4))
  finally have r: "read_chunks jp (glb D (encode_chunks cs)) D 12 None None = Inl RangeError"
    by simp
  have w: "D \<noteq> 12 + length (encode_chunks cs)"
    using assms(2) by simp
  show ?thesis
    unfolding parse_glb[OF assms(3)] r if_P[OF w] by simp
qed

lemma build_empty:
  "build_result exact_ops None (Some empty_document) bin = ([], Inr empty_gltf)"
  by (simp add: build_result_def buildScene_def buildObjects_def buildBuffers_def
        buildAccessors_def buildImages_def buildTextures_def map_index_def empty_document_def
        link_children_def scene_children_def sceneDef_nodes_def nth_opt_def or_zero_def
        empty_gltf_def empty_scene_def)

lemma build_missing: "build_result ops url None bin = ([], Inl (Error ''Missing JSON chunk''))"
  by (simp add: build_result_def)

lemma braces_facts:
  "well_formed [braces_chunk]" "length (encode_chunks [braces_chunk]) = 10"
  "no_throw decode_braces [braces_chunk]"
  "chunk_fold decode_braces [braces_chunk] None None = Inr (Some empty_document, None)"
  by (simp_all add: well_formed_def no_throw_def braces_chunk_def encode_chunks_def
        length_encode_chunk decode_braces_def)

lemma oversized_header:
  "getUint32 oversized_container 12 = Inr 1000"
  "getUint32 oversized_container 16 = Inr 0x4E4F534A"
  "take 1000 (drop 20 oversized_container) = [0x7B, 0x7D]"
  by (simp_all add: oversized_container_def glb_def le32_def getUint32_def)

lemma oversized_read:
  "read_chunks decode_braces oversized_container 22 12 None None
     = Inr (Some empty_document, None)"
  by (subst read_chunks.simps)
     (simp add: oversized_header slice_def decode_braces_def read_chunks_done)

lemma oversized_glb: "oversized_container = glb 22 (le32 1000 @ le32 0x4E4F534A @ [0x7B, 0x7D])"
  by (simp add: oversized_container_def)

text \<open>
  Claim C3, as amended: a chunk whose header declares a length running past the
  declared total length is not rejected for it. Its payload is the bytes from its start
  up to its declared end or the end of the buffer, whichever comes first (\<^verbatim>\<open>slice\<close>
  truncates it), and it is the last chunk read: a JSON chunk is decoded from the
  truncated payload, which throws a SyntaxError when that text does not parse and
  otherwise ends the loop with the decoded value; a BIN chunk ends the loop with that
  payload; any other chunk ends the loop with what was found before. When the loop
  stands at an offset below the declared length where fewer than 8 bytes of the buffer
  are left, reading the chunk header throws a RangeError. The loop throws nothing but a
  RangeError or a SyntaxError.
\<close>

theorem oversized_chunk_truncated:
  "(offset < len \<and> getUint32 buf offset = Inr chunkLen
      \<and> getUint32 buf (offset + 4) = Inr chunkType \<and> len < offset + 8 + chunkLen \<longrightarrow>
      read_chunks jp buf len offset json bin =
        (if chunkType = 0x4E4F534A then
           (case jp (take chunkLen (drop (offset + 8) buf)) of
              Throws \<Rightarrow> Inl SyntaxError
            | Falsy \<Rightarrow> Inr (None, bin)
            | Parsed d \<Rightarrow> Inr (Some d, bin))
         else if chunkType = 0x004E4942 then
           Inr (json, Some (take chunkLen (drop (offset + 8) buf)))
         else Inr (json, bin))
      \<and> length (take chunkLen (drop (offset + 8) buf))
          = min chunkLen (length buf - (offset + 8)))
   \<and> (offset < len \<and> length buf < offset + 8 \<longrightarrow>
        read_chunks jp buf len offset json bin = Inl RangeError)
   \<and> (read_chunks jp buf len offset json bin = Inl e \<longrightarrow> e = RangeError \<or> e = SyntaxError)"
proof (intro conjI impI)
  assume a: "offset < len \<and> getUint32 buf offset = Inr chunkLen
      \<and> getUint32 buf (offset + 4) = Inr chunkType \<and> len < offset + 8 + chunkLen"
  have d: "read_chunks jp buf len (offset + 8 + chunkLen) j b = Inr (j, b)" for j b
    using a by (intro read_chunks_done) simp
  have s: "slice buf (offset + 8) (offset + 8 + chunkLen) = take chunkLen (drop (offset + 8) buf)"
    by (simp add: slice_def)
  show "read_chunks jp buf len offset json bin =
        (if chunkType = 0x4E4F534A then
           (case jp (take chunkLen (drop (offset + 8) buf)) of
              Throws \<Rightarrow> Inl SyntaxError
            | Falsy \<Rightarrow> Inr (None, bin)
            | Parsed d \<Rightarrow> Inr (Some d, bin))
         else if chunkType = 0x004E4942 then
           Inr (json, Some (take chunkLen (drop (offset + 8) buf)))
         else Inr (json, bin))"
    by (subst read_chunks.simps) (simp add: a d s split: json_parsed.splits)
  show "length (take chunkLen (drop (offset + 8) buf)) = min chunkLen (length buf - (offset + 8))"
    by (simp add: min.commute)
next
  assume "offset < len \<and> length buf < offset + 8"
  then show "read_chunks jp buf len offset json bin = Inl RangeError"
    by (intro read_chunks_header_past) simp_all
next
  assume "read_chunks jp buf len offset json bin = Inl e"
  then show "e = RangeError \<or> e = SyntaxError"
    by (rule read_chunks_errors)
qed

text \<open>
  Witness of C3: in a container of 22 bytes, the only chunk is a JSON chunk that
  declares 1000 bytes and holds the two bytes of \<^verbatim>\<open>{}\<close>; the loop returns the document
  decoded from those two bytes. With the declared length 30 and the loop at offset 22,
  the end of the buffer, no byte is left for a chunk header and the loop throws a
  RangeError.
\<close>

theorem oversized_chunk_truncated_witness:
  "(12 :: nat) < 22
   \<and> getUint32 oversized_container 12 = Inr 1000
   \<and> getUint32 oversized_container 16 = Inr 0x4E4F534A
   \<and> (22 :: nat) < 12 + 8 + 1000
   \<and> read_chunks decode_braces oversized_container 22 12 None None
        = Inr (Some empty_document, None)
   \<and> length (take 1000 (drop 20 oversized_container)) = 2
   \<and> (22 :: nat) < 30 \<and> length oversized_container < 22 + 8
   \<and> read_chunks decode_braces oversized_container 30 22 None None = Inl RangeError"
proof -
  have 6: "length oversized_container = 22"
    by (simp add: oversized_container_def glb_def)
  show ?thesis
    using oversized_chunk_truncated[of 12 22 oversized_container 1000 "0x4E4F534A"
        decode_braces None None]
      oversized_chunk_truncated[of 22 30 oversized_container _ _ decode_braces None None]
    by (simp add: oversized_header 6 decode_braces_def)
qed

text \<open>
  Counterexample to C3 as stated: the same container, whose chunk header declares 1000
  bytes against a declared total length of 22, is parsed without any failure.
\<close>

theorem oversized_chunk_counterexample:
  "parse exact_ops decode_braces oversized_container None = ([], Inr empty_gltf)"
  unfolding oversized_glb
  by (simp add: parse_glb oversized_read[unfolded oversized_glb] build_empty)

text \<open>
  Claim C2, as amended: for every buffer whose header has the magic tag and the
  version 2 and declares a total length \<open>D\<close> other than the length of the buffer, the
  mismatch by itself raises no error: the warning is written first, and the result is
  that of the chunk loop and of what follows it, the loop being bounded by \<open>D\<close> and
  not by the length of the buffer. The loop reads a chunk header only at an offset
  below \<open>D\<close>: at an offset of \<open>D\<close> or more it stops with what it has found, whatever
  bytes follow; at an offset below \<open>D\<close> where fewer than 8 bytes of the buffer are
  left it throws a RangeError; and at an offset below \<open>D\<close> where the header can be
  read, the chunk is handled with the payload that \<^verbatim>\<open>slice\<close> cuts from the buffer (which
  may run past \<open>D\<close>) and the loop goes on, under the same bound \<open>D\<close>, at the end
  the chunk declares. So, for a buffer made of the header, chunks that each declare the
  length of their payload and that end exactly at the declared length, and further
  bytes, the result is that of the buffer without the further bytes, after the warning;
  and for a buffer made of the header and such chunks, of which no JSON chunk fails to
  parse, a declared length beyond the end of the buffer gives a RangeError after the
  warning.
\<close>

theorem length_mismatch_warns:
  "(getUint32 buf 0 = Inr 0x46546C67 \<and> getUint32 buf 4 = Inr 2 \<and> getUint32 buf 8 = Inr D
      \<and> D \<noteq> length buf \<longrightarrow>
      parse ops jp buf url =
        (case read_chunks jp buf D 12 None None of
           Inl e \<Rightarrow> ([''GLB length mismatch''], Inl e)
         | Inr (json, bin) \<Rightarrow>
             (case build_result ops url json bin of
                (ws, r) \<Rightarrow> (''GLB length mismatch'' # ws, r))))
   \<and> (D \<le> offset \<longrightarrow> read_chunks jp buf D offset j b = Inr (j, b))
   \<and> (offset < D \<and> length buf < offset + 8 \<longrightarrow>
        read_chunks jp buf D offset j b = Inl RangeError)
   \<and> (offset < D \<and> getUint32 buf offset = Inr chunkLen
        \<and> getUint32 buf (offset + 4) = Inr chunkType \<longrightarrow>
        read_chunks jp buf D offset j b =
          (if chunkType = 0x4E4F534A then
             (case jp (slice buf (offset + 8) (offset + 8 + chunkLen)) of
                Throws \<Rightarrow> Inl SyntaxError
              | Falsy \<Rightarrow> read_chunks jp buf D (offset + 8 + chunkLen) None b
              | Parsed d \<Rightarrow> read_chunks jp buf D (offset + 8 + chunkLen) (Some d) b)
           else if chunkType = 0x004E4942 then
             read_chunks jp buf D (offset + 8 + chunkLen) j
               (Some (slice buf (offset + 8) (offset + 8 + chunkLen)))
           else read_chunks jp buf D (offset + 8 + chunkLen) j b))
   \<and> (well_formed cs \<and> L = 12 + length (encode_chunks cs) \<and> L < 2 ^ 32 \<and> extra \<noteq> [] \<longrightarrow>
        parse ops jp (glb L (encode_chunks cs @ extra)) url =
          (case parse ops jp (glb L (encode_chunks cs)) url of
             (ws, r) \<Rightarrow> (''GLB length mismatch'' # ws, r)))
   \<and> (well_formed cs \<and> 12 + length (encode_chunks cs) < M \<and> M < 2 ^ 32 \<and> no_throw jp cs \<longrightarrow>
        parse ops jp (glb M (encode_chunks cs)) url =
          ([''GLB length mismatch''], Inl RangeError))"
proof (intro conjI impI)
  assume "getUint32 buf 0 = Inr 0x46546C67 \<and> getUint32 buf 4 = Inr 2
            \<and> getUint32 buf 8 = Inr D \<and> D \<noteq> length buf"
  then show "parse ops jp buf url =
        (case read_chunks jp buf D 12 None None of
           Inl e \<Rightarrow> ([''GLB length mismatch''], Inl e)
         | Inr (json, bin) \<Rightarrow>
             (case build_result ops url json bin of
                (ws, r) \<Rightarrow> (''GLB length mismatch'' # ws, r)))"
    by (intro parse_warns) simp_all
next
  assume "D \<le> offset"
  then show "read_chunks jp buf D offset j b = Inr (j, b)"
    by (rule read_chunks_done)
next
  assume "offset < D \<and> length buf < offset + 8"
  then show "read_chunks jp buf D offset j b = Inl RangeError"
    by (intro read_chunks_header_past) simp_all
next
  assume "offset < D \<and> getUint32 buf offset = Inr chunkLen
            \<and> getUint32 buf (offset + 4) = Inr chunkType"
  then show "read_chunks jp buf D offset j b =
          (if chunkType = 0x4E4F534A then
             (case jp (slice buf (offset + 8) (offset + 8 + chunkLen)) of
                Throws \<Rightarrow> Inl SyntaxError
              | Falsy \<Rightarrow> read_chunks jp buf D (offset + 8 + chunkLen) None b
              | Parsed d \<Rightarrow> read_chunks jp buf D (offset + 8 + chunkLen) (Some d) b)
           else if chunkType = 0x004E4942 then
             read_chunks jp buf D (offset + 8 + chunkLen) j
               (Some (slice buf (offset + 8) (offset + 8 + chunkLen)))
           else read_chunks jp buf D (offset + 8 + chunkLen) j b)"
    by (subst read_chunks.simps) simp
next
  assume "well_formed cs \<and> L = 12 + length (encode_chunks cs) \<and> L < 2 ^ 32 \<and> extra \<noteq> []"
  then show "parse ops jp (glb L (encode_chunks cs @ extra)) url =
          (case parse ops jp (glb L (encode_chunks cs)) url of
             (ws, r) \<Rightarrow> (''GLB length mismatch'' # ws, r))"
    by (intro parse_trailing) simp_all
next
  assume "well_formed cs \<and> 12 + length (encode_chunks cs) < M \<and> M < 2 ^ 32 \<and> no_throw jp cs"
  then show "parse ops jp (glb M (encode_chunks cs)) url =
          ([''GLB length mismatch''], Inl RangeError)"
    by (intro parse_declared_long) simp_all
qed

text \<open>
  Witness of C2: the container whose only chunk is the JSON text \<^verbatim>\<open>{}\<close>, 22 bytes
  long. With the declared length 12 the warning is written, the loop stops at once and
  the parse fails for want of a JSON chunk. With one more byte after the chunk and the
  declared length 22 it is parsed as without that byte, after the warning. With the
  declared length 30 the parse throws a RangeError after the warning. With the declared
  length 20 the chunk, which starts at offset 12, is decoded from the bytes 20 and 21.
\<close>

theorem length_mismatch_warns_witness:
  "getUint32 (glb 12 (encode_chunks [braces_chunk])) 0 = Inr 0x46546C67
   \<and> getUint32 (glb 12 (encode_chunks [braces_chunk])) 4 = Inr 2
   \<and> getUint32 (glb 12 (encode_chunks [braces_chunk])) 8 = Inr 12
   \<and> 12 \<noteq> length (glb 12 (encode_chunks [braces_chunk]))
   \<and> read_chunks decode_braces (glb 12 (encode_chunks [braces_chunk])) 12 12 None None
        = Inr (None, None)
   \<and> parse exact_ops decode_braces (glb 12 (encode_chunks [braces_chunk])) None
        = ([''GLB length mismatch''], Inl (Error ''Missing JSON chunk''))
   \<and> well_formed [braces_chunk]
   \<and> (22 :: nat) = 12 + length (encode_chunks [braces_chunk])
   \<and> (30 :: nat) < 2 ^ 32 \<and> no_throw decode_braces [braces_chunk]
   \<and> parse exact_ops decode_braces (glb 22 (encode_chunks [braces_chunk] @ [0])) None
        = ([''GLB length mismatch''], Inr empty_gltf)
   \<and> read_chunks decode_braces (glb 30 (encode_chunks [braces_chunk])) 30 22 None None
        = Inl RangeError
   \<and> parse exact_ops decode_braces (glb 30 (encode_chunks [braces_chunk])) None
        = ([''GLB length mismatch''], Inl RangeError)
   \<and> (12 :: nat) < 20
   \<and> getUint32 (glb 20 (encode_chunks [braces_chunk])) 12 = Inr 2
   \<and> getUint32 (glb 20 (encode_chunks [braces_chunk])) 16 = Inr 0x4E4F534A
   \<and> slice (glb 20 (encode_chunks [braces_chunk])) 20 22 = [0x7B, 0x7D]
   \<and> read_chunks decode_braces (glb 20 (encode_chunks [braces_chunk])) 20 12 None None
        = Inr (Some empty_document, None)"
proof -
  let ?b = "glb 12 (encode_chunks [braces_chunk])"
  let ?c = "glb 20 (encode_chunks [braces_chunk])"
  have c: "getUint32 ?c 12 = Inr 2" "getUint32 ?c 16 = Inr 0x4E4F534A"
    "slice ?c 20 22 = [0x7B, 0x7D]"
    by (simp_all add: glb_def le32_def getUint32_def encode_chunks_def encode_chunk_def
          braces_chunk_def slice_def)
  have e: "read_chunks decode_braces ?c 20 22 j b = Inr (j, b)" for j b
    by (rule read_chunks_done) simp
  have k: "read_chunks decode_braces ?c 20 12 None None = Inr (Some empty_document, None)"
    using length_mismatch_warns[where buf = ?c and D = 20 and jp = decode_braces and offset = 12
        and j = None and b = None and chunkLen = 2 and chunkType = "0x4E4F534A"]
    by (simp add: c e decode_braces_def)
  have h: "getUint32 ?b 0 = Inr 0x46546C67" "getUint32 ?b 4 = Inr 2" "getUint32 ?b 8 = Inr 12"
    and l: "length ?b = 22" and l30: "length (glb 30 (encode_chunks [braces_chunk])) = 22"
    by (simp_all add: glb_header braces_facts(2))
  have 2: "(22 :: nat) = 12 + length (encode_chunks [braces_chunk])"
    and 3: "(22 :: nat) < 2 ^ 32"
    by (simp_all add: braces_facts(2))
  have p: "parse exact_ops decode_braces (glb 22 (encode_chunks [braces_chunk])) None
             = ([], Inr empty_gltf)"
    unfolding parse_encoded[OF braces_facts(1) 2 3] braces_facts(4)
    by (simp add: build_empty)
  have r: "read_chunks decode_braces ?b 12 12 None None = Inr (None, None)"
    using length_mismatch_warns[of ?b 12 exact_ops decode_braces None 12 None None]
    by simp
  have m: "parse exact_ops decode_braces ?b None
             = ([''GLB length mismatch''], Inl (Error ''Missing JSON chunk''))"
    using length_mismatch_warns[of ?b 12 exact_ops decode_braces None 12 None None] h l
    by (simp add: r build_missing)
  have t: "parse exact_ops decode_braces (glb 22 (encode_chunks [braces_chunk] @ [0])) None
             = ([''GLB length mismatch''], Inr empty_gltf)"
    using length_mismatch_warns[where cs = "[braces_chunk]" and L = 22 and extra = "[0]"
        and ops = exact_ops and jp = decode_braces and url = None]
    by (simp add: p braces_facts)
  have g: "read_chunks decode_braces (glb 30 (encode_chunks [braces_chunk])) 30 22 None None
             = Inl RangeError"
    using length_mismatch_warns[of "glb 30 (encode_chunks [braces_chunk])" 30 exact_ops
        decode_braces None 22 None None]
    by (simp add: l30)
  have d: "parse exact_ops decode_braces (glb 30 (encode_chunks [braces_chunk])) None
             = ([''GLB length mismatch''], Inl RangeError)"
    using length_mismatch_warns[where cs = "[braces_chunk]" and M = 30
        and ops = exact_ops and jp = decode_braces and url = None]
    by (simp add: braces_facts)
  show ?thesis
    using h l r m t g d c k by (simp add: braces_facts)
qed

text \<open>
  Counterexample to C2 as stated: the same 22 bytes with the declared length 12. A loop
  governed by the length of the buffer finds the JSON chunk; the parser, governed by the
  declared length, reads no chunk and fails for want of one. With the declared length
  30 the parse is aborted by a RangeError.
\<close>

theorem declared_length_counterexample:
  "read_chunks decode_braces (glb 12 (encode_chunks [braces_chunk]))
     (length (glb 12 (encode_chunks [braces_chunk]))) 12 None None
     = Inr (Some empty_document, None)
   \<and> parse exact_ops decode_braces (glb 12 (encode_chunks [braces_chunk])) None
     = ([''GLB length mismatch''], Inl (Error ''Missing JSON chunk''))
   \<and> parse exact_ops decode_braces (glb 30 (encode_chunks [braces_chunk])) None
     = ([''GLB length mismatch''], Inl RangeError)"
proof (intro conjI)
  have l: "length (glb 12 (encode_chunks [braces_chunk])) = 12 + length (encode_chunks [braces_chunk])"
    by (simp add: glb_header(4))
  show "read_chunks decode_braces (glb 12 (encode_chunks [braces_chunk]))
          (length (glb 12 (encode_chunks [braces_chunk]))) 12 None None
          = Inr (Some empty_document, None)"
    using read_glb_exact[OF braces_facts(1), of decode_braces 12 "[]"]
    unfolding l braces_facts(4) append_Nil2 .
  show "parse exact_ops decode_braces (glb 12 (encode_chunks [braces_chunk])) None
          = ([''GLB length mismatch''], Inl (Error ''Missing JSON chunk''))"
    by (simp add: parse_glb read_chunks_done build_missing braces_facts(2))
  show "parse exact_ops decode_braces (glb 30 (encode_chunks [braces_chunk])) None
          = ([''GLB length mismatch''], Inl RangeError)"
    by (rule parse_declared_long) (simp_all add: braces_facts)
qed

lemma mixed_facts:
  "well_formed mixed_chunks" "length (encode_chunks mixed_chunks) = 41"
  "no_throw decode_braces mixed_chunks"
  "last_of 0x4E4F534A mixed_chunks = Some [0x7B, 0x7D]"
  "last_of 0x004E4942 mixed_chunks = Some [2, 3]"
  by (simp_all add: mixed_chunks_def well_formed_def no_throw_def braces_chunk_def
        null_chunk_def encode_chunks_def length_encode_chunk decode_braces_def last_of_def)

text \<open>
  Claim C9, as amended: for every container that is made of the header and well-formed
  chunks and whose declared length is exactly the end of the last chunk, the last chunk
  of each type wins provided every JSON chunk decodes without a SyntaxError: the
  document is what the last JSON chunk decodes to (none when that is a falsy value),
  the binary payload is that of the last BIN chunk, and the result is the one built
  from these two, with no warning for the earlier chunks. Every JSON chunk is decoded
  when it is met: when some JSON chunk of the container, an earlier one included, does
  not decode, the parse is aborted with a SyntaxError.
\<close>

theorem last_chunk_wins:
  assumes "well_formed cs" and "L = 12 + length (encode_chunks cs)" and "L < 2 ^ 32"
  shows "(no_throw jp cs \<longrightarrow>
            read_chunks jp (glb L (encode_chunks cs)) L 12 None None =
              Inr (case last_of 0x4E4F534A cs of None \<Rightarrow> None | Some t \<Rightarrow> json_of (jp t),
                   last_of 0x004E4942 cs)
            \<and> parse ops jp (glb L (encode_chunks cs)) url =
                build_result ops url
                  (case last_of 0x4E4F534A cs of None \<Rightarrow> None | Some t \<Rightarrow> json_of (jp t))
                  (last_of 0x004E4942 cs))
       \<and> (\<not> no_throw jp cs \<longrightarrow>
            read_chunks jp (glb L (encode_chunks cs)) L 12 None None = Inl SyntaxError
            \<and> parse ops jp (glb L (encode_chunks cs)) url = ([], Inl SyntaxError))"
proof (intro conjI impI)
  have r: "read_chunks jp (glb L (encode_chunks cs)) L 12 None None = chunk_fold jp cs None None"
    using read_glb_exact[OF assms(1), of jp L "[]"] assms(2) by simp
  {
    assume nt: "no_throw jp cs"
    have f: "chunk_fold jp cs None None =
               Inr (case last_of 0x4E4F534A cs of None \<Rightarrow> None | Some t \<Rightarrow> json_of (jp t),
                    last_of 0x004E4942 cs)"
      using chunk_fold_last[OF nt, of None None] by (simp split: option.splits)
    show "read_chunks jp (glb L (encode_chunks cs)) L 12 None None =
              Inr (case last_of 0x4E4F534A cs of None \<Rightarrow> None | Some t \<Rightarrow> json_of (jp t),
                   last_of 0x004E4942 cs)"
      unfolding r f ..
    show "parse ops jp (glb L (encode_chunks cs)) url =
                build_result ops url
                  (case last_of 0x4E4F534A cs of None \<Rightarrow> None | Some t \<Rightarrow> json_of (jp t))
                  (last_of 0x004E4942 cs)"
      unfolding parse_encoded[OF assms] f by simp
  }
  {
    assume "\<not> no_throw jp cs"
    then have f: "chunk_fold jp cs None None = Inl SyntaxError"
      by (rule chunk_fold_throws)
    show "read_chunks jp (glb L (encode_chunks cs)) L 12 None None = Inl SyntaxError"
      unfolding r f ..
    show "parse ops jp (glb L (encode_chunks cs)) url = ([], Inl SyntaxError)"
      unfolding parse_encoded[OF assms] f by simp
  }
qed

text \<open>
  Witness of C9: of two JSON chunks (\<^verbatim>\<open>null\<close>, then \<^verbatim>\<open>{}\<close>) and two BIN chunks, the
  loop keeps the document of the second JSON chunk and the payload of the second BIN
  chunk; and a container with the JSON chunks \<^verbatim>\<open>x\<close> and \<^verbatim>\<open>{}\<close> is aborted by the
  SyntaxError of the first.
\<close>

theorem last_chunk_wins_witness:
  "well_formed mixed_chunks \<and> (53 :: nat) = 12 + length (encode_chunks mixed_chunks)
   \<and> (53 :: nat) < 2 ^ 32 \<and> no_throw decode_braces mixed_chunks
   \<and> read_chunks decode_braces (glb 53 (encode_chunks mixed_chunks)) 53 12 None None
        = Inr (Some empty_document, Some [2, 3])
   \<and> parse exact_ops decode_braces (glb 53 (encode_chunks mixed_chunks)) None
        = ([], Inr empty_gltf)
   \<and> well_formed [x_chunk, braces_chunk]
   \<and> (31 :: nat) = 12 + length (encode_chunks [x_chunk, braces_chunk])
   \<and> \<not> no_throw decode_braces [x_chunk, braces_chunk]
   \<and> parse exact_ops decode_braces (glb 31 (encode_chunks [x_chunk, braces_chunk])) None
        = ([], Inl SyntaxError)"
proof -
  have 2: "(53 :: nat) = 12 + length (encode_chunks mixed_chunks)"
    and 3: "(53 :: nat) < 2 ^ 32"
    by (simp_all add: mixed_facts(2))
  have x1: "well_formed [x_chunk, braces_chunk]"
    and x2: "(31 :: nat) = 12 + length (encode_chunks [x_chunk, braces_chunk])"
    and x3: "(31 :: nat) < 2 ^ 32"
    and x4: "\<not> no_throw decode_braces [x_chunk, braces_chunk]"
    by (simp_all add: well_formed_def no_throw_def x_chunk_def braces_chunk_def
          encode_chunks_def length_encode_chunk decode_braces_def)
  show ?thesis
    using last_chunk_wins[OF mixed_facts(1) 2 3, of decode_braces exact_ops None]
      last_chunk_wins[OF x1 x2 x3, of decode_braces exact_ops None]
    by (simp add: mixed_facts decode_braces_def build_empty x1 x2 x4)
qed

text \<open>
  Counterexample to C9 as stated: a container with the JSON chunks \<^verbatim>\<open>x\<close> and \<^verbatim>\<open>{}\<close>.
  The earlier chunk is not discarded without error: decoding it throws a SyntaxError,
  and the later chunk is never read.
\<close>

theorem earlier_json_counterexample:
  "parse exact_ops decode_braces (glb 31 (encode_chunks [x_chunk, braces_chunk])) None
     = ([], Inl SyntaxError)"
proof -
  have 1: "well_formed [x_chunk, braces_chunk]"
    and 2: "(31 :: nat) = 12 + length (encode_chunks [x_chunk, braces_chunk])"
    and 3: "(31 :: nat) < 2 ^ 32"
    and 4: "chunk_fold decode_braces [x_chunk, braces_chunk] None None = Inl SyntaxError"
    by (simp_all add: well_formed_def x_chunk_def braces_chunk_def encode_chunks_def
          length_encode_chunk decode_braces_def)
  show ?thesis
    unfolding parse_encoded[OF 1 2 3] 4 by simp
qed

end
